theory Spec2Isabelle
  imports Main "HOL-Library.Sublist"
begin

section \<open>The AI tutor application (app.py)\<close>

text \<open>
  The program is a Streamlit script: every user interaction runs the script once from the
  top, against the session state that Streamlit keeps between runs and against the
  Firestore collection of user documents. One run is modelled as a function from the
  state before the run to the way the run ended and the state after it.

  Streamlit's \<^verbatim>\<open>st.rerun()\<close> and \<^verbatim>\<open>st.stop()\<close> end the current run at the
  statement that calls them: both raise a script-control exception that derives from
  Python's BaseException, so that an \<^verbatim>\<open>except Exception\<close> clause of the script does
  not catch it. Firestore reads and writes are taken to succeed, except that
  \<^verbatim>\<open>DocumentReference.update\<close> raises when the document does not exist.
\<close>

subsection \<open>Data model\<close>

datatype role = System | User | Assistant | Image

datatype message = Message (role: role) (content: string)

record preferences =
  style :: string
  pace :: string
  difficulty :: string

text \<open>The user document of the Firestore collection, with the keys that registration writes.\<close>

record user =
  first_name :: string
  last_name :: string
  email :: string
  u_username :: string
  password_hash :: string
  tokens :: int
  learning_preferences :: preferences
  subjects :: "string list"
  u_chat_history :: "message list"

datatype page = LoginPage | RegisterPage | ProfilePage | TutorPage

text \<open>
  \<^verbatim>\<open>st.session_state\<close>. The field \<open>history_aliased\<close> is not a key of the session state:
  it records that \<^verbatim>\<open>st.session_state.chat_history\<close> and
  \<^verbatim>\<open>st.session_state.user_data['chat_history']\<close> are one and the same Python list, as
  they are after login, so that an append to the first is an append to the second.
\<close>

record session =
  logged_in :: bool
  current_page :: page
  username :: "string option"
  user_data :: "user option"
  chat_history :: "message list"
  current_study_subject :: "string option"
  subject_context_loaded :: bool
  active_syllabus :: string
  active_subject_context :: string
  generating_image :: bool
  history_aliased :: bool

text \<open>What a run shows to the user and which external calls it issues, in order.\<close>

datatype notice =
    Firebase_not_initialized
  | Firebase_not_configured
  | Incorrect_password
  | Username_not_found
  | Password_reset_not_implemented
  | Passwords_do_not_match
  | All_fields_required
  | Username_already_exists
  | Registration_successful
  | Please_log_in
  | OpenAI_not_initialized
  | Preferences_updated
  | Preferences_update_failed
  | Maximum_of_5_subjects
  | Subjects_updated
  | Subjects_update_failed
  | Select_a_valid_subject
  | PDF_file_not_found string
  | Error_reading_PDF_file string string
  | Text_file_not_found string
  | Error_reading_text_file string string
  | No_tokens_left
  | OpenAI_API_error string
  | Unexpected_error string
  | Error_text_to_speech string
  | Need_tokens_for_visual int int
  | No_recent_tutor_message
  | Error_generating_image_prompt string
  | Unexpected_error_image_prompt string
  | No_suitable_image_prompt
  | Image_generated
  | No_image_data_returned
  | DALLE_API_error string
  | Unexpected_error_DALLE string
  | Failed_to_generate_visual

datatype effect =
    St_error notice
  | St_warning notice
  | St_info notice
  | St_success notice
  | St_audio
  | Chat_completion nat "message list"
  | Image_generation string
  | Text_to_speech string
  | Firestore_set string user
  | Firestore_update string "message list"

record app =
  st :: session
  db :: "string \<rightharpoonup> user"
  shown :: "effect list"

text \<open>How a run of the script ends.\<close>

datatype outcome = Finished | Rerun | Stopped | Crashed

subsection \<open>The environment of a run\<close>

datatype 'a file_read = File_not_found | Read_error string | Contents 'a

datatype 'a api_result = API_error string | Other_error string | Returned 'a

text \<open>
  The services the script calls: the two configuration flags set at the top of the script,
  bcrypt, the files under \<^verbatim>\<open>subject_context/\<close> (a PDF as the text of its pages), the
  chat-completion endpoint (with its \<^verbatim>\<open>max_tokens\<close> and messages), the image endpoint
  (\<open>None\<close>: a response without a URL) and gTTS (the audio bytes).
\<close>

record env =
  firebase_initialized :: bool
  openai_initialized :: bool
  hash_password :: "string \<Rightarrow> string"
  check_password :: "string \<Rightarrow> string \<Rightarrow> bool"
  pdf_reader :: "string \<Rightarrow> string list file_read"
  open_text :: "string \<Rightarrow> string file_read"
  chat_completions_create :: "nat \<Rightarrow> message list \<Rightarrow> string api_result"
  images_generate :: "string \<Rightarrow> string option api_result"
  gtts :: "string \<Rightarrow> string api_result"

text \<open>The session state that the top of the script sets up in a new browser session.\<close>

definition initial_session :: session where
  "initial_session =
     \<lparr>logged_in = False, current_page = LoginPage, username = None, user_data = None,
      chat_history = [], current_study_subject = None, subject_context_loaded = False,
      active_syllabus = [], active_subject_context = [], generating_image = False,
      history_aliased = False\<rparr>"

subsection \<open>Helper functions\<close>

definition emit :: "effect \<Rightarrow> app \<Rightarrow> app" where
  "emit e w = w\<lparr>shown := shown w @ [e]\<rparr>"

definition set_page :: "page \<Rightarrow> app \<Rightarrow> app" where
  "set_page p w = w\<lparr>st := (st w)\<lparr>current_page := p\<rparr>\<rparr>"

text \<open>Python's truth value of a value that is \<^verbatim>\<open>None\<close> or a string.\<close>

definition truthy :: "string option \<Rightarrow> bool" where
  "truthy x = (case x of None \<Rightarrow> False | Some s \<Rightarrow> s \<noteq> [])"

text \<open>An in-place change of the dictionary \<^verbatim>\<open>st.session_state.user_data\<close>.\<close>

definition modify_user :: "(user \<Rightarrow> user) \<Rightarrow> app \<Rightarrow> app" where
  "modify_user f w = w\<lparr>st := (st w)\<lparr>user_data := map_option f (user_data (st w))\<rparr>\<rparr>"

text \<open>\<^verbatim>\<open>st.session_state.chat_history.append(m)\<close>.\<close>

definition append_chat :: "message \<Rightarrow> app \<Rightarrow> app" where
  "append_chat m w =
     w\<lparr>st := (st w)\<lparr>chat_history := chat_history (st w) @ [m],
          user_data :=
            (if history_aliased (st w)
             then map_option (\<lambda>u. u\<lparr>u_chat_history := u_chat_history u @ [m]\<rparr>) (user_data (st w))
             else user_data (st w))\<rparr>\<rparr>"

text \<open>\<^verbatim>\<open>st.session_state.chat_history = []\<close>: a new list, no longer the one of the user data.\<close>

definition clear_chat :: "app \<Rightarrow> app" where
  "clear_chat w = w\<lparr>st := (st w)\<lparr>chat_history := [], history_aliased := False\<rparr>\<rparr>"

text \<open>
  \<^verbatim>\<open>update_user_data(data)\<close>; every caller passes the dictionary of the session state.
  \<^verbatim>\<open>set(data, merge=True)\<close> writes every key of the dictionary.
\<close>

definition update_user_data :: "env \<Rightarrow> app \<Rightarrow> bool \<times> app" where
  "update_user_data e w =
     (case (username (st w), user_data (st w)) of
        (Some n, Some u) \<Rightarrow>
          if n \<noteq> [] \<and> firebase_initialized e
          then (True, emit (Firestore_set n u) (w\<lparr>db := (db w)(n \<mapsto> u)\<rparr>))
          else (False, w)
      | _ \<Rightarrow> (False, w))"

text \<open>
  \<^verbatim>\<open>save_chat_history()\<close>; the Boolean is False when \<^verbatim>\<open>doc_ref.update\<close> raises because
  the document does not exist.
\<close>

definition save_chat_history :: "env \<Rightarrow> app \<Rightarrow> bool \<times> app" where
  "save_chat_history e w =
     (case (username (st w), user_data (st w)) of
        (Some n, Some u) \<Rightarrow>
          if n \<noteq> [] \<and> firebase_initialized e
          then (case db w n of
                  None \<Rightarrow> (False, w)
                | Some d \<Rightarrow>
                    (True, emit (Firestore_update n (chat_history (st w)))
                             (w\<lparr>db := (db w)(n \<mapsto> d\<lparr>u_chat_history := chat_history (st w)\<rparr>)\<rparr>)))
          else (True, w)
      | _ \<Rightarrow> (True, w))"

definition read_pdf_text :: "env \<Rightarrow> string \<Rightarrow> app \<Rightarrow> string option \<times> app" where
  "read_pdf_text e file_path w =
     (case pdf_reader e file_path of
        Contents pages \<Rightarrow> (Some (concat (map (\<lambda>p. p @ ''\<newline>'') pages)), w)
      | File_not_found \<Rightarrow> (None, emit (St_error (PDF_file_not_found file_path)) w)
      | Read_error x \<Rightarrow> (None, emit (St_error (Error_reading_PDF_file file_path x)) w))"

definition read_text_file :: "env \<Rightarrow> string \<Rightarrow> app \<Rightarrow> string option \<times> app" where
  "read_text_file e file_path w =
     (case open_text e file_path of
        Contents text_content \<Rightarrow> (Some text_content, w)
      | File_not_found \<Rightarrow> (None, emit (St_error (Text_file_not_found file_path)) w)
      | Read_error x \<Rightarrow> (None, emit (St_error (Error_reading_text_file file_path x)) w))"

definition text_to_speech :: "env \<Rightarrow> string \<Rightarrow> app \<Rightarrow> string option \<times> app" where
  "text_to_speech e txt w =
     (let w1 = emit (Text_to_speech txt) w in
      case gtts e txt of
        Returned audio_bytes \<Rightarrow> (Some audio_bytes, w1)
      | API_error x \<Rightarrow> (None, emit (St_error (Error_text_to_speech x)) w1)
      | Other_error x \<Rightarrow> (None, emit (St_error (Error_text_to_speech x)) w1))"

subsection \<open>Starting a study session (tutor_page, the study subject form)\<close>

definition select_a_subject :: string where
  "select_a_subject = ''-- Select a Subject --''"

definition subject_file_name :: "string \<Rightarrow> string" where
  "subject_file_name subject =
     map (\<lambda>c. if c = CHR ''/'' then CHR ''-'' else c)
       (map (\<lambda>c. if c = CHR '' '' then CHR ''_'' else c) subject)"

definition syllabus_file_path :: "string \<Rightarrow> string" where
  "syllabus_file_path subject = ''subject_context/syl_'' @ subject_file_name subject @ ''.pdf''"

definition context_file_path :: "string \<Rightarrow> string" where
  "context_file_path subject = ''subject_context/con_'' @ subject_file_name subject @ ''.txt''"

text \<open>
  The f-string of the system prompt, line by line. Every line of the literal is indented
  by sixteen blanks. The literal is not a raw string, so that Python reads
  \<^verbatim>\<open>\t\<close> as a tab and \<^verbatim>\<open>\r\<close> as a carriage return.
\<close>

definition indent :: string where
  "indent = ''                ''"

definition formatting_instructions :: string where
  "formatting_instructions =
     indent @ ''**IMPORTANT INSTRUCTION FOR EQUATIONS:**\<newline>'' @
     indent @ ''Whenever you present a chemical equation, mathematical formula, or any scientific notation, please format it using LaTeX.\<newline>'' @
     indent @ ''Use `$$...$$` for block equations (on their own line) and `$...$` for inline equations within text.\<newline>'' @
     indent @ ''For chemical symbols within LaTeX, use `'' @ [CHR 0x09] @ ''ext{Symbol}` to ensure they are rendered as plain text (e.g., `$'' @
       [CHR 0x09] @ ''ext{H}_2'' @ [CHR 0x09] @ ''ext{O}$` for H2O).\<newline>'' @
     indent @ ''Example: The balanced equation for water formation is $$'' @ [CHR 0x09] @ ''ext{2H}_2 + '' @
       [CHR 0x09] @ ''ext{O}_2 '' @ [CHR 0x0D] @ ''ightarrow '' @ [CHR 0x09] @ ''ext{2H}_2'' @ [CHR 0x09] @ ''ext{O}$$\<newline>''"

definition initial_system_prompt :: "string \<Rightarrow> string \<Rightarrow> string \<Rightarrow> string \<Rightarrow> string" where
  "initial_system_prompt subject student_grade syllabus context =
     ''\<newline>'' @
     indent @ ''You are an AI tutor specializing in '' @ subject @ ''.\<newline>'' @
     indent @ ''Your responses should be tailored to the student's preferences and selected subject.\<newline>'' @
     indent @ ''Student's Grade Level: '' @ student_grade @ ''\<newline>'' @
     indent @ ''\<newline>'' @
     formatting_instructions @
     indent @ ''---\<newline>'' @
     indent @ ''Syllabus for '' @ subject @ '':\<newline>'' @
     indent @ syllabus @ ''\<newline>'' @
     indent @ ''---\<newline>'' @
     indent @ ''Additional Context for '' @ subject @ '':\<newline>'' @
     indent @ context @ ''\<newline>'' @
     indent @ ''---\<newline>'' @
     indent @ ''Be helpful, patient, and provide clear explanations. Ensure your answers are strictly within the scope of the provided syllabus and context.\<newline>'' @
     indent"

definition initial_tutor_message :: "string \<Rightarrow> string" where
  "initial_tutor_message subject =
     ''Hello! Welcome to your '' @ subject @
     '' study session. I'm ready to help you with any questions you have based on the syllabus and context provided. How can I assist you today?''"

text \<open>
  The body of \<^verbatim>\<open>if start_session_button:\<close>, with the subject and the grade level chosen
  in the two select boxes.
\<close>

definition start_study_session :: "env \<Rightarrow> string \<Rightarrow> string \<Rightarrow> app \<Rightarrow> outcome \<times> app" where
  "start_study_session e selected student_grade w =
     (if selected = select_a_subject
      then (Stopped, emit (St_warning Select_a_valid_subject) w)
      else
        let w1 = w\<lparr>st := (st w)\<lparr>current_study_subject := Some selected\<rparr>\<rparr> in
        (case read_pdf_text e (syllabus_file_path selected) w1 of
          (None, w2) \<Rightarrow> (Stopped, w2)
        | (Some syllabus_content, w2) \<Rightarrow>
            (case read_text_file e (context_file_path selected) w2 of
               (None, w3) \<Rightarrow> (Stopped, w3)
             | (Some context_content, w3) \<Rightarrow>
                 let w4 = w3\<lparr>st := (st w3)\<lparr>active_syllabus := syllabus_content,
                                 active_subject_context := context_content,
                                 subject_context_loaded := True\<rparr>\<rparr>;
                     w5 = clear_chat w4;
                     w6 = append_chat
                            (Message System
                               (initial_system_prompt selected student_grade
                                  syllabus_content context_content)) w5;
                     w7 = append_chat (Message Assistant (initial_tutor_message selected)) w6
                 in (case save_chat_history e w7 of
                       (True, w8) \<Rightarrow> (Rerun, w8)
                     | (False, w8) \<Rightarrow> (Crashed, w8)))))"

subsection \<open>The chat interface (tutor_page, a subject being active)\<close>

text \<open>The body of \<^verbatim>\<open>if st.button("Change Study Subject"):\<close>.\<close>

definition change_study_subject :: "app \<Rightarrow> outcome \<times> app" where
  "change_study_subject w =
     (Rerun, clear_chat (w\<lparr>st := (st w)\<lparr>current_study_subject := None,
                                        subject_context_loaded := False\<rparr>\<rparr>))"

text \<open>
  An \<^verbatim>\<open>except\<close> clause of a send or of the prompt-condensation call: it shows the
  error, adds the cost back and writes the user data. After a send the run goes on to the
  end of the page; after the prompt-condensation call the page returns.
\<close>

definition revert_token_decrement :: "env \<Rightarrow> int \<Rightarrow> notice \<Rightarrow> app \<Rightarrow> outcome \<times> app" where
  "revert_token_decrement e cost n w =
     (Finished,
      snd (update_user_data e
             (modify_user (\<lambda>u. u\<lparr>tokens := tokens u + cost\<rparr>) (emit (St_error n) w))))"

text \<open>
  The body of \<^verbatim>\<open>if send_button and user_input:\<close>; \<open>current_tokens\<close> is the balance
  read at the top of the page. A failure of \<^verbatim>\<open>save_chat_history\<close> inside the
  \<^verbatim>\<open>try\<close> is an exception that the second \<^verbatim>\<open>except\<close> clause catches.
\<close>

definition send_to_tutor :: "env \<Rightarrow> int \<Rightarrow> string \<Rightarrow> app \<Rightarrow> outcome \<times> app" where
  "send_to_tutor e current_tokens user_input w =
     (if current_tokens \<le> 0
      then (Finished, emit (St_error No_tokens_left) w)
      else
        let w1 = modify_user (\<lambda>u. u\<lparr>tokens := tokens u - 1\<rparr>) w;
            w2 = snd (update_user_data e w1);
            w3 = append_chat (Message User user_input) w2
        in case save_chat_history e w3 of
             (False, w4) \<Rightarrow> (Crashed, w4)
           | (True, w4) \<Rightarrow>
               let messages = chat_history (st w4);
                   w5 = emit (Chat_completion 500 messages) w4
               in (case chat_completions_create e 500 messages of
                     Returned tutor_response \<Rightarrow>
                       let w6 = append_chat (Message Assistant tutor_response) w5;
                           (audio_bytes, w7) = text_to_speech e tutor_response w6;
                           w8 = (if truthy audio_bytes then emit St_audio w7 else w7)
                       in (case save_chat_history e w8 of
                             (True, w9) \<Rightarrow> (Rerun, w9)
                           | (False, w9) \<Rightarrow>
                               revert_token_decrement e 1
                                 (Unexpected_error ''NotFound'') w9)
                   | API_error x \<Rightarrow> revert_token_decrement e 1 (OpenAI_API_error x) w5
                   | Other_error x \<Rightarrow> revert_token_decrement e 1 (Unexpected_error x) w5))"

definition IMAGE_GENERATION_COST :: int where
  "IMAGE_GENERATION_COST = 50"

definition image_prompt_system_message :: string where
  "image_prompt_system_message =
     ''You are an assistant that generates concise, descriptive image prompts based on provided text, suitable for a visual learner. Focus on key concepts. Max 50 words.''"

definition image_prompt_generation_messages :: "string \<Rightarrow> message list" where
  "image_prompt_generation_messages last_tutor_message =
     [Message System image_prompt_system_message,
      Message User (''Generate an image prompt based on this: '' @ last_tutor_message)]"

text \<open>The loop over \<^verbatim>\<open>reversed(st.session_state.chat_history)\<close>.\<close>

definition last_tutor_message :: "message list \<Rightarrow> string" where
  "last_tutor_message history =
     (case find (\<lambda>msg. role msg = Assistant) (rev history) of
        None \<Rightarrow> []
      | Some msg \<Rightarrow> content msg)"

definition generating_message :: "string \<Rightarrow> message" where
  "generating_message image_gen_prompt =
     Message Assistant (''Generating a visual for: '' @ [CHR 0x27] @ image_gen_prompt @ [CHR 0x27])"

text \<open>
  The body of \<^verbatim>\<open>elif generate_visual_button:\<close> up to the \<^verbatim>\<open>st.rerun()\<close> that
  follows the "Generating a visual" message. That call ends the run, so the statements
  after it, the call of \<^verbatim>\<open>generate_image\<close> among them, are never executed.
\<close>

definition generate_visual_explanation :: "env \<Rightarrow> int \<Rightarrow> app \<Rightarrow> outcome \<times> app" where
  "generate_visual_explanation e current_tokens w =
     (if current_tokens < IMAGE_GENERATION_COST
      then (Finished, emit (St_error (Need_tokens_for_visual IMAGE_GENERATION_COST current_tokens)) w)
      else
        let w1 = modify_user (\<lambda>u. u\<lparr>tokens := tokens u - IMAGE_GENERATION_COST\<rparr>) w;
            w2 = snd (update_user_data e w1);
            ltm = last_tutor_message (chat_history (st w2))
        in if ltm = []
           then (Finished, emit (St_warning No_recent_tutor_message) w2)
           else
             let messages = image_prompt_generation_messages ltm;
                 w3 = emit (Chat_completion 50 messages) w2
             in (case chat_completions_create e 50 messages of
                   API_error x \<Rightarrow>
                     revert_token_decrement e IMAGE_GENERATION_COST
                       (Error_generating_image_prompt x) w3
                 | Other_error x \<Rightarrow>
                     revert_token_decrement e IMAGE_GENERATION_COST
                       (Unexpected_error_image_prompt x) w3
                 | Returned image_gen_prompt \<Rightarrow>
                     if image_gen_prompt \<noteq> []
                     then (case save_chat_history e
                                  (append_chat (generating_message image_gen_prompt) w3) of
                             (True, w4) \<Rightarrow> (Rerun, w4)
                           | (False, w4) \<Rightarrow> (Crashed, w4))
                     else (Finished, emit (St_warning No_suitable_image_prompt) w3)))"

text \<open>\<^verbatim>\<open>generate_image(prompt)\<close>, with its \<^verbatim>\<open>finally\<close> clause.\<close>

definition generate_image :: "env \<Rightarrow> string \<Rightarrow> app \<Rightarrow> string option \<times> app" where
  "generate_image e prompt w =
     (let w1 = emit (Image_generation prompt) (w\<lparr>st := (st w)\<lparr>generating_image := True\<rparr>\<rparr>);
          (image_url, w2) =
            (case images_generate e prompt of
               Returned (Some url) \<Rightarrow>
                 if url \<noteq> [] then (Some url, emit (St_success Image_generated) w1)
                 else (None, emit (St_error No_image_data_returned) w1)
             | Returned None \<Rightarrow> (None, emit (St_error No_image_data_returned) w1)
             | API_error x \<Rightarrow> (None, emit (St_error (DALLE_API_error x)) w1)
             | Other_error x \<Rightarrow> (None, emit (St_error (Unexpected_error_DALLE x)) w1))
      in (image_url, w2\<lparr>st := (st w2)\<lparr>generating_image := False\<rparr>\<rparr>))"

text \<open>
  The statements of the page that stand after the \<^verbatim>\<open>st.rerun()\<close> of the
  "Generating a visual" message: the call of \<^verbatim>\<open>generate_image\<close> and the two branches
  on its result. No run reaches them; they are modelled to record what they would do.
\<close>

definition after_generating_message :: "env \<Rightarrow> string \<Rightarrow> app \<Rightarrow> outcome \<times> app" where
  "after_generating_message e image_gen_prompt w =
     (case generate_image e image_gen_prompt w of
        (Some generated_image_url, w1) \<Rightarrow>
          (case save_chat_history e (append_chat (Message Image generated_image_url) w1) of
             (True, w2) \<Rightarrow> (Rerun, w2)
           | (False, w2) \<Rightarrow> (Crashed, w2))
      | (None, w1) \<Rightarrow> (Finished, emit (St_error Failed_to_generate_visual) w1))"

subsection \<open>The pages and the main function\<close>

text \<open>
  The widget the user operated to trigger the run, with the values of the input widgets
  that the code of that widget reads. A run that only redraws the page has \<open>No_click\<close>.
\<close>

datatype click =
    No_click
  | Nav_Profile
  | Nav_Tutor
  | Nav_Logout
  | Nav_Login
  | Nav_Register
  | Submit_Login string string
  | Register_Here
  | Reset_Password
  | Submit_Register string string string string string string
  | Login_Here
  | Update_Preferences string string string
  | Update_Subjects "string list"
  | Go_to_Tutor_Page
  | Start_Study_Session string string
  | Change_Study_Subject
  | Send_to_Tutor string
  | Generate_Visual_Explanation
  | Back_to_Profile

definition login_page :: "env \<Rightarrow> click \<Rightarrow> app \<Rightarrow> outcome \<times> app" where
  "login_page e c w =
     (if \<not> firebase_initialized e
      then (Finished, emit (St_warning Firebase_not_initialized) w)
      else
        (case c of
           Submit_Login name password \<Rightarrow>
             (case db w name of
                Some doc \<Rightarrow>
                  if check_password e password (password_hash doc)
                  then (Rerun,
                        w\<lparr>st := (st w)\<lparr>logged_in := True, username := Some name,
                                      user_data := Some doc,
                                      chat_history := u_chat_history doc,
                                      history_aliased := True,
                                      current_page := TutorPage\<rparr>\<rparr>)
                  else (Finished, emit (St_error Incorrect_password) w)
              | None \<Rightarrow> (Finished, emit (St_error Username_not_found) w))
         | Register_Here \<Rightarrow> (Rerun, set_page RegisterPage w)
         | Reset_Password \<Rightarrow> (Finished, emit (St_info Password_reset_not_implemented) w)
         | _ \<Rightarrow> (Finished, w)))"

definition register_page :: "env \<Rightarrow> click \<Rightarrow> app \<Rightarrow> outcome \<times> app" where
  "register_page e c w =
     (if \<not> firebase_initialized e
      then (Finished, emit (St_warning Firebase_not_initialized) w)
      else
        (case c of
           Submit_Register first_nm last_nm name mail password confirm_password \<Rightarrow>
             if password \<noteq> confirm_password
             then (Finished, emit (St_error Passwords_do_not_match) w)
             else if name = [] \<or> password = [] \<or> first_nm = [] \<or> last_nm = [] \<or> mail = []
             then (Finished, emit (St_error All_fields_required) w)
             else if db w name \<noteq> None
             then (Finished, emit (St_error Username_already_exists) w)
             else
               let doc = \<lparr>first_name = first_nm, last_name = last_nm, email = mail,
                          u_username = name, password_hash = hash_password e password,
                          tokens = 1000,
                          learning_preferences =
                            \<lparr>style = ''interactive'', pace = ''moderate'',
                             difficulty = ''beginner''\<rparr>,
                          subjects = [], u_chat_history = []\<rparr>
               in (Rerun,
                   set_page LoginPage
                     (emit (St_success Registration_successful)
                        (emit (Firestore_set name doc) (w\<lparr>db := (db w)(name \<mapsto> doc)\<rparr>))))
         | Login_Here \<Rightarrow> (Rerun, set_page LoginPage w)
         | Reset_Password \<Rightarrow> (Finished, emit (St_info Password_reset_not_implemented) w)
         | _ \<Rightarrow> (Finished, w)))"

text \<open>The redirection of a page that needs a logged-in user.\<close>

definition please_log_in :: "app \<Rightarrow> outcome \<times> app" where
  "please_log_in w = (Rerun, set_page LoginPage (emit (St_warning Please_log_in) w))"

definition profile_page :: "env \<Rightarrow> click \<Rightarrow> app \<Rightarrow> outcome \<times> app" where
  "profile_page e c w =
     (if \<not> logged_in (st w) \<or> user_data (st w) = None
      then please_log_in w
      else if \<not> firebase_initialized e
      then (Finished, emit (St_error Firebase_not_initialized) w)
      else
        (case c of
           Update_Preferences learning_style learning_pace difficulty_level \<Rightarrow>
             (case update_user_data e
                     (modify_user
                        (\<lambda>u. u\<lparr>learning_preferences :=
                                   \<lparr>style = learning_style, pace = learning_pace,
                                    difficulty = difficulty_level\<rparr>\<rparr>) w) of
                (True, w1) \<Rightarrow> (Finished, emit (St_success Preferences_updated) w1)
              | (False, w1) \<Rightarrow> (Finished, emit (St_error Preferences_update_failed) w1))
         | Update_Subjects selected_subjects \<Rightarrow>
             if length selected_subjects > 5
             then (Finished, emit (St_error Maximum_of_5_subjects) w)
             else
               (case update_user_data e
                       (modify_user (\<lambda>u. u\<lparr>subjects := selected_subjects\<rparr>) w) of
                  (True, w1) \<Rightarrow> (Finished, emit (St_success Subjects_updated) w1)
                | (False, w1) \<Rightarrow> (Finished, emit (St_error Subjects_update_failed) w1))
         | Go_to_Tutor_Page \<Rightarrow> (Rerun, set_page TutorPage w)
         | _ \<Rightarrow> (Finished, w)))"

text \<open>
  \<^verbatim>\<open>tutor_page()\<close>. The study subject form is drawn when no subject is selected or its
  context is not loaded, the chat interface otherwise; a button that the page does not
  draw cannot have been clicked. The button of the visual explanation is disabled while
  \<^verbatim>\<open>generating_image\<close> is set.
\<close>

definition tutor_page :: "env \<Rightarrow> click \<Rightarrow> app \<Rightarrow> outcome \<times> app" where
  "tutor_page e c w =
     (case user_data (st w) of
        None \<Rightarrow> please_log_in w
      | Some u \<Rightarrow>
          if \<not> logged_in (st w) then please_log_in w
          else if \<not> openai_initialized e
          then (Finished, emit (St_error OpenAI_not_initialized) w)
          else if \<not> firebase_initialized e
          then (Finished, emit (St_error Firebase_not_initialized) w)
          else
            let current_tokens = tokens u in
            if \<not> truthy (current_study_subject (st w)) \<or> \<not> subject_context_loaded (st w)
            then
              (case c of
                 Start_Study_Session selected student_grade \<Rightarrow>
                   start_study_session e selected student_grade w
               | _ \<Rightarrow> (Finished, w))
            else
              (case c of
                 Change_Study_Subject \<Rightarrow> change_study_subject w
               | Send_to_Tutor user_input \<Rightarrow>
                   if user_input \<noteq> [] then send_to_tutor e current_tokens user_input w
                   else (Finished, w)
               | Generate_Visual_Explanation \<Rightarrow>
                   if \<not> generating_image (st w)
                   then generate_visual_explanation e current_tokens w
                   else (Finished, w)
               | Back_to_Profile \<Rightarrow> (Rerun, set_page ProfilePage w)
               | _ \<Rightarrow> (Finished, w)))"

text \<open>The body of \<^verbatim>\<open>if st.sidebar.button("Logout"):\<close> in \<^verbatim>\<open>main()\<close>.\<close>

definition logout :: "app \<Rightarrow> outcome \<times> app" where
  "logout w =
     (Rerun,
      w\<lparr>st := (st w)\<lparr>logged_in := False, username := None, user_data := None,
                    chat_history := [], history_aliased := False,
                    current_page := LoginPage\<rparr>\<rparr>)"

definition render_page :: "env \<Rightarrow> click \<Rightarrow> app \<Rightarrow> outcome \<times> app" where
  "render_page e c w =
     (case current_page (st w) of
        LoginPage \<Rightarrow> login_page e c w
      | RegisterPage \<Rightarrow> register_page e c w
      | ProfilePage \<Rightarrow> profile_page e c w
      | TutorPage \<Rightarrow> tutor_page e c w)"

text \<open>\<^verbatim>\<open>main()\<close>: one run of the script. Every run draws its output anew.\<close>

definition main :: "env \<Rightarrow> click \<Rightarrow> app \<Rightarrow> outcome \<times> app" where
  "main e c w0 =
     (let w = w0\<lparr>shown := []\<rparr> in
      if logged_in (st w)
      then
        (case c of
           Nav_Profile \<Rightarrow> (Rerun, set_page ProfilePage w)
         | Nav_Tutor \<Rightarrow> (Rerun, set_page TutorPage w)
         | Nav_Logout \<Rightarrow> logout w
         | _ \<Rightarrow> render_page e c w)
      else
        (case c of
           Nav_Login \<Rightarrow> (Rerun, set_page LoginPage w)
         | Nav_Register \<Rightarrow> (Rerun, set_page RegisterPage w)
         | _ \<Rightarrow> render_page e c w))"

text \<open>A sequence of runs, each with its own click and its own answers of the services.\<close>

fun runs :: "(env \<times> click) list \<Rightarrow> app \<Rightarrow> app" where
  "runs [] w = w"
| "runs ((e, c) # rest) w = runs rest (snd (main e c w))"

subsection \<open>What the properties speak about\<close>

text \<open>The token balance of the session, and the one stored for the logged-in user.\<close>

definition balance :: "app \<Rightarrow> int option" where
  "balance w = map_option tokens (user_data (st w))"

definition stored_balance :: "app \<Rightarrow> int option" where
  "stored_balance w =
     (case username (st w) of None \<Rightarrow> None | Some n \<Rightarrow> map_option tokens (db w n))"

text \<open>The transcript stored in the user document of the logged-in user.\<close>

definition stored_transcript :: "app \<Rightarrow> message list option" where
  "stored_transcript w =
     (case username (st w) of None \<Rightarrow> None | Some n \<Rightarrow> map_option u_chat_history (db w n))"

text \<open>The tutor page is the current page and gets past its three guards.\<close>

definition tutor_ready :: "env \<Rightarrow> app \<Rightarrow> bool" where
  "tutor_ready e w =
     (current_page (st w) = TutorPage \<and> logged_in (st w) \<and> user_data (st w) \<noteq> None \<and>
      openai_initialized e \<and> firebase_initialized e)"

text \<open>The engine is in its Active state: the tutor page draws the chat interface.\<close>

definition active :: "app \<Rightarrow> bool" where
  "active w = (truthy (current_study_subject (st w)) \<and> subject_context_loaded (st w))"

text \<open>The session has a document to write to: the condition of the two saving functions.\<close>

definition writes :: "env \<Rightarrow> app \<Rightarrow> bool" where
  "writes e w =
     (truthy (username (st w)) \<and> user_data (st w) \<noteq> None \<and> firebase_initialized e)"

definition is_chat_completion :: "effect \<Rightarrow> bool" where
  "is_chat_completion x = (case x of Chat_completion _ _ \<Rightarrow> True | _ \<Rightarrow> False)"

definition is_image_generation :: "effect \<Rightarrow> bool" where
  "is_image_generation x = (case x of Image_generation _ \<Rightarrow> True | _ \<Rightarrow> False)"

definition api_failed :: "'a api_result \<Rightarrow> bool" where
  "api_failed r = (case r of Returned _ \<Rightarrow> False | _ \<Rightarrow> True)"

definition unreadable :: "'a file_read \<Rightarrow> bool" where
  "unreadable f = (case f of Contents _ \<Rightarrow> False | _ \<Rightarrow> True)"

text \<open>No balance is negative, in the session or in the store.\<close>

definition tokens_nonneg :: "app \<Rightarrow> bool" where
  "tokens_nonneg w =
     ((\<forall>u. user_data (st w) = Some u \<longrightarrow> 0 \<le> tokens u) \<and>
      (\<forall>n u. db w n = Some u \<longrightarrow> 0 \<le> tokens u))"

text \<open>
  The message is a system prompt for the subject; the transcript, when it is not empty,
  starts with a system prompt for the current study subject.
\<close>

definition system_prompt_of :: "string \<Rightarrow> message \<Rightarrow> bool" where
  "system_prompt_of subject m =
     (role m = System \<and>
      (\<exists>grade syllabus context.
         content m = initial_system_prompt subject grade syllabus context))"

definition transcript_headed :: "app \<Rightarrow> bool" where
  "transcript_headed w =
     (chat_history (st w) = [] \<or>
      (\<exists>s. current_study_subject (st w) = Some s \<and>
           system_prompt_of s (hd (chat_history (st w)))))"

definition is_submit_login :: "click \<Rightarrow> bool" where
  "is_submit_login c = (case c of Submit_Login _ _ \<Rightarrow> True | _ \<Rightarrow> False)"

definition is_send :: "click \<Rightarrow> bool" where
  "is_send c = (case c of Send_to_Tutor _ \<Rightarrow> True | _ \<Rightarrow> False)"

definition is_start :: "click \<Rightarrow> bool" where
  "is_start c = (case c of Start_Study_Session _ _ \<Rightarrow> True | _ \<Rightarrow> False)"

text \<open>
  The subjects of the select box of the study subject form, and the clicks that the widgets
  can deliver: a session start comes with one of the options of the select box.
\<close>

definition available_study_subjects :: "string list" where
  "available_study_subjects =
     [''English A'', ''Mathematics'', ''Biology'', ''Integrated Science'',
      ''Agricultural Science'', ''Chemistry'', ''Human and Social Biology'',
      ''Physics'', ''Social Studies'', ''Principles of Business'', ''Geography'']"

definition offered :: "click \<Rightarrow> bool" where
  "offered c =
     (case c of
        Start_Study_Session selected _ \<Rightarrow>
          selected \<in> set (select_a_subject # available_study_subjects)
      | _ \<Rightarrow> True)"

text \<open>The context-loaded flag is set only together with a study subject.\<close>

definition loaded_with_subject :: "app \<Rightarrow> bool" where
  "loaded_with_subject w =
     (subject_context_loaded (st w) \<longrightarrow> truthy (current_study_subject (st w)))"

subsection \<open>Concrete states and services for the examples\<close>

definition example_user :: "int \<Rightarrow> message list \<Rightarrow> user" where
  "example_user t h =
     \<lparr>first_name = ''Alice'', last_name = ''Liddell'', email = ''alice@example.org'',
      u_username = ''alice'', password_hash = ''pw1'', tokens = t,
      learning_preferences =
        \<lparr>style = ''interactive'', pace = ''moderate'', difficulty = ''beginner''\<rparr>,
      subjects = [], u_chat_history = h\<rparr>"

text \<open>
  Services that answer every request alike: the syllabus, the context file and the
  chat-completion call as given; bcrypt replaced by the identity; an image endpoint that
  fails.
\<close>

definition example_env :: "string list file_read \<Rightarrow> string file_read \<Rightarrow> string api_result \<Rightarrow> env" where
  "example_env syllabus_pdf context_txt chat =
     \<lparr>firebase_initialized = True, openai_initialized = True,
      hash_password = (\<lambda>p. p), check_password = (\<lambda>p h. p = h),
      pdf_reader = (\<lambda>_. syllabus_pdf), open_text = (\<lambda>_. context_txt),
      chat_completions_create = (\<lambda>_ _. chat),
      images_generate = (\<lambda>_. API_error ''quota''), gtts = (\<lambda>_. Returned ''mp3'')\<rparr>"

text \<open>
  alice on the tutor page with balance \<open>t\<close>, study subject \<open>subject\<close> (its context
  loaded or not) and transcript \<open>h\<close>, which is also the stored one.
\<close>

definition example_app :: "int \<Rightarrow> string option \<Rightarrow> bool \<Rightarrow> message list \<Rightarrow> app" where
  "example_app t subject loaded h =
     \<lparr>st = \<lparr>logged_in = True, current_page = TutorPage, username = Some ''alice'',
             user_data = Some (example_user t h), chat_history = h,
             current_study_subject = subject, subject_context_loaded = loaded,
             active_syllabus = [], active_subject_context = [],
             generating_image = False, history_aliased = False\<rparr>,
      db = [''alice'' \<mapsto> example_user t h], shown = []\<rparr>"

text \<open>A new browser session, with alice and bob registered.\<close>

definition example_bob :: user where
  "example_bob = (example_user 1000 [])\<lparr>u_username := ''bob'', password_hash := ''pw2''\<rparr>"

definition fresh_browser :: app where
  "fresh_browser =
     \<lparr>st = initial_session,
      db = [''alice'' \<mapsto> example_user 1000 [], ''bob'' \<mapsto> example_bob], shown = []\<rparr>"

text \<open>The transcript that a session start for Mathematics leaves.\<close>

definition seeded :: "message list" where
  "seeded =
     [Message System
        (initial_system_prompt ''Mathematics'' ''High School'' ''S\<newline>'' ''C''),
      Message Assistant (initial_tutor_message ''Mathematics'')]"

text \<open>
  Services whose chat-completion call answers Hello, and five runs in one browser: alice
  logs in and starts a Mathematics session, logs out, then bob logs in and sends a message.
\<close>

definition hello_env :: env where
  "hello_env = example_env (Contents [''S'']) (Contents ''C'') (Returned ''Hello'')"

definition bob_after_alice :: "(env \<times> click) list" where
  "bob_after_alice =
     [(hello_env, Submit_Login ''alice'' ''pw1''),
      (hello_env, Start_Study_Session ''Mathematics'' ''High School''),
      (hello_env, Nav_Logout),
      (hello_env, Submit_Login ''bob'' ''pw2''),
      (hello_env, Send_to_Tutor ''Hi'')]"

section \<open>Properties\<close>

subsection \<open>The state after the helper functions\<close>

lemmas small_defs = emit_def set_page_def modify_user_def append_chat_def clear_chat_def

lemmas example_defs = example_app_def example_env_def example_user_def example_bob_def
  fresh_browser_def initial_session_def seeded_def
lemmas guard_defs = tutor_ready_def active_def truthy_def
lemmas run_defs = main_def render_page_def tutor_page_def login_page_def logout_def
  set_page_def please_log_in_def
lemmas code_defs = start_study_session_def change_study_subject_def send_to_tutor_def
  generate_visual_explanation_def revert_token_decrement_def after_generating_message_def
  generate_image_def update_user_data_def save_chat_history_def read_pdf_text_def
  read_text_file_def text_to_speech_def emit_def modify_user_def append_chat_def clear_chat_def
  last_tutor_message_def image_prompt_generation_messages_def generating_message_def
  IMAGE_GENERATION_COST_def select_a_subject_def

lemma update_st [simp]: "st (snd (update_user_data e w)) = st w"
  by (simp add: update_user_data_def emit_def split: option.splits)

lemma save_st [simp]: "st (snd (save_chat_history e w)) = st w"
  by (simp add: save_chat_history_def emit_def split: option.splits)

lemma tts_st [simp]: "st (snd (text_to_speech e r w)) = st w"
  by (simp add: text_to_speech_def emit_def Let_def split: api_result.splits)

lemma tts_db [simp]: "db (snd (text_to_speech e r w)) = db w"
  by (simp add: text_to_speech_def emit_def Let_def split: api_result.splits)

lemma save_then_st [simp]:
  "st (snd (case save_chat_history e w of (True, x) \<Rightarrow> (a, x) | (False, x) \<Rightarrow> (b, x))) = st w"
proof -
  have "snd (case save_chat_history e w of (True, x) \<Rightarrow> (a, x) | (False, x) \<Rightarrow> (b, x)) = snd (save_chat_history e w)"
    by (simp split: prod.splits bool.splits)
  then show ?thesis by simp
qed

lemma update_no_write: "\<not> writes e w \<Longrightarrow> update_user_data e w = (False, w)"
  by (auto simp add: update_user_data_def writes_def truthy_def split: option.splits)

lemma save_no_write: "\<not> writes e w \<Longrightarrow> save_chat_history e w = (True, w)"
  by (auto simp add: save_chat_history_def writes_def truthy_def split: option.splits)

lemma update_write:
  "username (st w) = Some n \<Longrightarrow> n \<noteq> [] \<Longrightarrow> user_data (st w) = Some u \<Longrightarrow> firebase_initialized e \<Longrightarrow>
   update_user_data e w = (True, emit (Firestore_set n u) (w\<lparr>db := (db w)(n \<mapsto> u)\<rparr>))"
  by (simp add: update_user_data_def)

lemma save_write:
  "username (st w) = Some n \<Longrightarrow> n \<noteq> [] \<Longrightarrow> user_data (st w) = Some u \<Longrightarrow> firebase_initialized e \<Longrightarrow>
   db w n = Some d \<Longrightarrow>
   save_chat_history e w = (True, emit (Firestore_update n (chat_history (st w)))
                             (w\<lparr>db := (db w)(n \<mapsto> d\<lparr>u_chat_history := chat_history (st w)\<rparr>)\<rparr>))"
  by (simp add: save_chat_history_def)

lemma writes_cases:
  obtains (no) "\<not> writes e w" | (yes) n u where "username (st w) = Some n" "n \<noteq> []" "user_data (st w) = Some u" "firebase_initialized e"
  by (cases "username (st w)"; cases "user_data (st w)") (auto simp: writes_def truthy_def)

lemma writes_frame [simp]:
  "writes e (emit x w) = writes e w"
  "writes e (modify_user f w) = writes e w"
  "writes e (append_chat m w) = writes e w"
  "writes e (snd (update_user_data e w)) = writes e w"
  "writes e (snd (save_chat_history e w)) = writes e w"
  "writes e (snd (text_to_speech e r w)) = writes e w"
  "writes e (w\<lparr>shown := xs\<rparr>) = writes e w"
  by (simp_all add: writes_def small_defs)

subsection \<open>From a run of the script to the code of the clicked widget\<close>

lemma main_send:
  "tutor_ready e w \<Longrightarrow> active w \<Longrightarrow> user_data (st w) = Some u \<Longrightarrow> user_input \<noteq> [] \<Longrightarrow>
   main e (Send_to_Tutor user_input) w = send_to_tutor e (tokens u) user_input (w\<lparr>shown := []\<rparr>)"
  by (simp add: main_def render_page_def tutor_page_def tutor_ready_def active_def)

lemma main_visual:
  "tutor_ready e w \<Longrightarrow> active w \<Longrightarrow> user_data (st w) = Some u \<Longrightarrow> \<not> generating_image (st w) \<Longrightarrow>
   main e Generate_Visual_Explanation w = generate_visual_explanation e (tokens u) (w\<lparr>shown := []\<rparr>)"
  by (simp add: main_def render_page_def tutor_page_def tutor_ready_def active_def)

lemma main_start:
  "tutor_ready e w \<Longrightarrow> \<not> active w \<Longrightarrow> 
   main e (Start_Study_Session selected grade) w = start_study_session e selected grade (w\<lparr>shown := []\<rparr>)"
  by (auto simp add: main_def render_page_def tutor_page_def tutor_ready_def active_def)

lemma main_change:
  "tutor_ready e w \<Longrightarrow> active w \<Longrightarrow> 
   main e Change_Study_Subject w = change_study_subject (w\<lparr>shown := []\<rparr>)"
  by (auto simp add: main_def render_page_def tutor_page_def tutor_ready_def active_def)

subsection \<open>Sending a message\<close>

lemma send_no_write:
  assumes "\<not> writes e w" "0 < t"
  shows "send_to_tutor e t user_input w =
    (let w3 = append_chat (Message User user_input) (modify_user (\<lambda>u. u\<lparr>tokens := tokens u - 1\<rparr>) w);
         w5 = emit (Chat_completion 500 (chat_history (st w3))) w3 in
     case chat_completions_create e 500 (chat_history (st w3)) of
       Returned r \<Rightarrow> (let (a, w7) = text_to_speech e r (append_chat (Message Assistant r) w5) in
                       (Rerun, if truthy a then emit St_audio w7 else w7))
     | API_error x \<Rightarrow> (Finished, modify_user (\<lambda>u. u\<lparr>tokens := tokens u + 1\<rparr>) (emit (St_error (OpenAI_API_error x)) w5))
     | Other_error x \<Rightarrow> (Finished, modify_user (\<lambda>u. u\<lparr>tokens := tokens u + 1\<rparr>) (emit (St_error (Unexpected_error x)) w5)))"
  using assms 
  by (simp add: send_to_tutor_def revert_token_decrement_def update_no_write save_no_write Let_def split_beta split: api_result.splits)

lemma send_success:
  assumes "user_data (st w) = Some u" "0 < t"
   "chat_completions_create e 500 (chat_history (st w) @ [Message User user_input]) = Returned reply"
  shows "fst (send_to_tutor e t user_input w) = Rerun \<and> balance (snd (send_to_tutor e t user_input w)) = Some (tokens u - 1) \<and> chat_history (st  (snd (send_to_tutor e t user_input w))) = chat_history (st w) @ [Message User user_input, Message Assistant reply]
  \<and> filter is_chat_completion (shown (snd (send_to_tutor e t user_input w))) = filter is_chat_completion (shown w) @ [Chat_completion 500 (chat_history (st w) @ [Message User user_input])]"
proof (cases rule: writes_cases[of e w])
  case no
  show ?thesis using assms 
    by (simp add: send_no_write[OF no] text_to_speech_def Let_def balance_def small_defs is_chat_completion_def split: api_result.splits)
next
  case (yes n u')
  then show ?thesis using assms
    by (simp add: send_to_tutor_def update_write save_write small_defs text_to_speech_def Let_def balance_def is_chat_completion_def  split: api_result.splits)
qed

lemma send_failure:
  assumes "user_data (st w) = Some u" 
   "api_failed (chat_completions_create e 500 (chat_history (st w) @ [Message User user_input]))"
  shows "fst (send_to_tutor e t user_input w) = Finished \<and> balance (snd (send_to_tutor e t user_input w)) = Some (tokens u) \<and>
       (stored_balance w = Some (tokens u) \<longrightarrow> stored_balance (snd (send_to_tutor e t user_input w)) = Some (tokens u))"
proof (cases "0 < t")
  case False
  then show ?thesis using assms by (simp add: send_to_tutor_def balance_def stored_balance_def emit_def split: option.splits)
next
  case True
  show ?thesis
  proof (cases rule: writes_cases[of e w])
    case no
    show ?thesis using assms True
      by (simp add: send_no_write[OF no] Let_def balance_def stored_balance_def small_defs api_failed_def split: api_result.splits option.splits)
  next
    case (yes n u')
    then show ?thesis using assms True
      by (simp add: send_to_tutor_def revert_token_decrement_def update_write save_write small_defs Let_def balance_def stored_balance_def api_failed_def split: api_result.splits)
  qed
qed

subsection \<open>Starting a session\<close>

lemma start_unreadable:
  assumes "selected \<noteq> select_a_subject"
    "unreadable (pdf_reader e (syllabus_file_path selected)) \<or> unreadable (open_text e (context_file_path selected))"
  shows "fst (start_study_session e selected g w) = Stopped \<and>
         (\<exists>n. shown (snd (start_study_session e selected g w)) = shown w @ [St_error n]) \<and>
         st (snd (start_study_session e selected g w)) = (st w)\<lparr>current_study_subject := Some selected\<rparr> \<and>
         db (snd (start_study_session e selected g w)) = db w"
  using assms
  by (auto simp: start_study_session_def read_pdf_text_def read_text_file_def unreadable_def emit_def Let_def split: file_read.splits)

lemma start_readable:
  assumes "selected \<noteq> select_a_subject"
    "pdf_reader e (syllabus_file_path selected) = Contents pages"
    "open_text e (context_file_path selected) = Contents ctx"
  shows "st (snd (start_study_session e selected g w)) =
      (st w)\<lparr>current_study_subject := Some selected,
         active_syllabus := concat (map (\<lambda>p. p @ ''\<newline>'') pages),
         active_subject_context := ctx, subject_context_loaded := True,
         chat_history := [Message System (initial_system_prompt selected g (concat (map (\<lambda>p. p @ ''\<newline>'') pages)) ctx),
                          Message Assistant (initial_tutor_message selected)],
         history_aliased := False\<rparr>"
  using assms
  by (simp add: start_study_session_def read_pdf_text_def read_text_file_def Let_def small_defs)




subsection \<open>Requesting a visual explanation\<close>

lemma no_assistant_last:
  "\<forall>m\<in>set h. role m \<noteq> Assistant \<Longrightarrow> last_tutor_message h = []"
proof -
  assume "\<forall>m\<in>set h. role m \<noteq> Assistant"
  then have "find (\<lambda>msg. role msg = Assistant) (rev h) = None"
    by (simp add: find_None_iff)
  then show ?thesis by (simp add: last_tutor_message_def)
qed

lemma visual_no_tutor_message:
  assumes "user_data (st w) = Some u" "username (st w) = Some n" "n \<noteq> []"
    "firebase_initialized e" "IMAGE_GENERATION_COST \<le> t"
    "last_tutor_message (chat_history (st w)) = []"
  shows "generate_visual_explanation e t w =
     (Finished,
      emit (St_warning No_recent_tutor_message)
        (emit (Firestore_set n (u\<lparr>tokens := tokens u - 50\<rparr>))
           (w\<lparr>st := (st w)\<lparr>user_data := Some (u\<lparr>tokens := tokens u - 50\<rparr>)\<rparr>,
              db := (db w)(n \<mapsto> u\<lparr>tokens := tokens u - 50\<rparr>)\<rparr>)))"
  using assms
  by (simp add: generate_visual_explanation_def update_write modify_user_def Let_def emit_def
      IMAGE_GENERATION_COST_def)

subsection \<open>The token balance\<close>

text \<open>The two branches on the result of \<^verbatim>\<open>save_chat_history\<close>.\<close>

lemma case_saved:
  "(case p of (True, x) \<Rightarrow> f x | (False, x) \<Rightarrow> g x) = (if fst p then f (snd p) else g (snd p))"
  by (cases p; cases "fst p"; simp)

lemma nonneg_frame [simp]:
  "tokens_nonneg (w\<lparr>shown := xs\<rparr>) = tokens_nonneg w"
  "tokens_nonneg (emit x w) = tokens_nonneg w"
  "tokens_nonneg (set_page p w) = tokens_nonneg w"
  "tokens_nonneg (clear_chat w) = tokens_nonneg w"
  "tokens_nonneg (snd (text_to_speech e r w)) = tokens_nonneg w"
  by (simp_all add: tokens_nonneg_def small_defs)

lemma nonneg_append [simp]: "tokens_nonneg (append_chat m w) = tokens_nonneg w"
  by (cases "user_data (st w)") (simp_all add: tokens_nonneg_def append_chat_def)

lemma nonneg_update [simp]: "tokens_nonneg w \<Longrightarrow> tokens_nonneg (snd (update_user_data e w))"
  by (auto simp: tokens_nonneg_def update_user_data_def emit_def split: option.splits)

lemma nonneg_save [simp]: "tokens_nonneg w \<Longrightarrow> tokens_nonneg (snd (save_chat_history e w))"
  by (auto simp: tokens_nonneg_def save_chat_history_def emit_def split: option.splits if_splits)

lemma nonneg_refund:
  "tokens_nonneg w \<Longrightarrow> 0 \<le> c \<Longrightarrow> tokens_nonneg (modify_user (\<lambda>u. u\<lparr>tokens := tokens u + c\<rparr>) w)"
  by (auto simp: tokens_nonneg_def modify_user_def)

lemma nonneg_deduct:
  "tokens_nonneg w \<Longrightarrow> user_data (st w) = Some u \<Longrightarrow> c \<le> tokens u \<Longrightarrow>
   tokens_nonneg (modify_user (\<lambda>u. u\<lparr>tokens := tokens u - c\<rparr>) w)"
  by (auto simp: tokens_nonneg_def modify_user_def)

lemma nonneg_modify_other:
  "tokens_nonneg w \<Longrightarrow> (\<And>u. tokens (f u) = tokens u) \<Longrightarrow> tokens_nonneg (modify_user f w)"
  by (auto simp: tokens_nonneg_def modify_user_def)

lemma nonneg_revert [simp]:
  "tokens_nonneg w \<Longrightarrow> 0 \<le> c \<Longrightarrow> tokens_nonneg (snd (revert_token_decrement e c n w))"
  by (simp add: revert_token_decrement_def nonneg_refund)

lemma nonneg_send:
  assumes "tokens_nonneg w" "user_data (st w) = Some u"
  shows "tokens_nonneg (snd (send_to_tutor e (tokens u) user_input w))"
proof (cases "tokens u \<le> 0")
  case True
  then show ?thesis using assms by (simp add: send_to_tutor_def)
next
  case False
  then have "tokens_nonneg (modify_user (\<lambda>u. u\<lparr>tokens := tokens u - 1\<rparr>) w)"
    using assms by (intro nonneg_deduct) auto
  then show ?thesis using False
    by (simp add: send_to_tutor_def Let_def case_saved split_beta split: api_result.splits)
qed

lemma nonneg_visual:
  assumes "tokens_nonneg w" "user_data (st w) = Some u"
  shows "tokens_nonneg (snd (generate_visual_explanation e (tokens u) w))"
proof (cases "tokens u < IMAGE_GENERATION_COST")
  case True
  then show ?thesis using assms by (simp add: generate_visual_explanation_def)
next
  case False
  then have "tokens_nonneg (modify_user (\<lambda>u. u\<lparr>tokens := tokens u - IMAGE_GENERATION_COST\<rparr>) w)"
    using assms by (intro nonneg_deduct) auto
  then show ?thesis using False
    by (simp add: generate_visual_explanation_def Let_def case_saved IMAGE_GENERATION_COST_def
        split: api_result.splits)
qed

lemma nonneg_st:
  "user_data s = user_data (st w) \<Longrightarrow> tokens_nonneg (w\<lparr>st := s\<rparr>) = tokens_nonneg w"
  by (simp add: tokens_nonneg_def)

lemma nonneg_start:
  "tokens_nonneg w \<Longrightarrow> tokens_nonneg (snd (start_study_session e selected g w))"
  by (simp add: start_study_session_def read_pdf_text_def read_text_file_def Let_def case_saved
      nonneg_st split: file_read.splits)

lemma nonneg_change: "tokens_nonneg w \<Longrightarrow> tokens_nonneg (snd (change_study_subject w))"
  by (simp add: change_study_subject_def nonneg_st)

lemma nonneg_please [simp]: "tokens_nonneg w \<Longrightarrow> tokens_nonneg (snd (please_log_in w))"
  by (simp add: please_log_in_def)

lemma nonneg_tutor_page: "tokens_nonneg w \<Longrightarrow> tokens_nonneg (snd (tutor_page e c w))"
  by (cases c) (auto simp: tutor_page_def Let_def nonneg_send nonneg_visual nonneg_start
      nonneg_change split: option.splits)

lemma nonneg_login_page: "tokens_nonneg w \<Longrightarrow> tokens_nonneg (snd (login_page e c w))"
  by (cases c)
     (auto simp: login_page_def tokens_nonneg_def emit_def set_page_def split: option.splits)

lemma nonneg_register_page: "tokens_nonneg w \<Longrightarrow> tokens_nonneg (snd (register_page e c w))"
  by (cases c) (auto simp: register_page_def Let_def tokens_nonneg_def emit_def set_page_def)

lemma nonneg_profile_page: "tokens_nonneg w \<Longrightarrow> tokens_nonneg (snd (profile_page e c w))"
  by (cases c) (auto simp: profile_page_def case_saved nonneg_modify_other)

lemma nonneg_render_page: "tokens_nonneg w \<Longrightarrow> tokens_nonneg (snd (render_page e c w))"
  by (cases "current_page (st w)")
     (simp_all add: render_page_def nonneg_tutor_page nonneg_login_page nonneg_register_page
        nonneg_profile_page)

lemma nonneg_logout: "tokens_nonneg w \<Longrightarrow> tokens_nonneg (snd (logout w))"
  by (simp add: logout_def tokens_nonneg_def)

lemma nonneg_main: "tokens_nonneg w \<Longrightarrow> tokens_nonneg (snd (main e c w))"
  by (cases c) (simp_all add: main_def Let_def nonneg_render_page nonneg_logout)

lemma nonneg_runs: "tokens_nonneg w \<Longrightarrow> tokens_nonneg (runs ecs w)"
  by (induction ecs arbitrary: w) (auto simp: nonneg_main)

lemma visual_balance:
  assumes "user_data (st w) = Some u" "IMAGE_GENERATION_COST \<le> t"
  shows "balance (snd (generate_visual_explanation e t w)) =
     Some (if last_tutor_message (chat_history (st w)) \<noteq> [] \<and>
              api_failed (chat_completions_create e 50
                 (image_prompt_generation_messages (last_tutor_message (chat_history (st w)))))
           then tokens u else tokens u - 50)"
  using assms
  by (simp add: generate_visual_explanation_def revert_token_decrement_def Let_def case_saved
      balance_def api_failed_def small_defs IMAGE_GENERATION_COST_def split: api_result.splits)

lemma send_balance:
  assumes "user_data (st w) = Some u" "0 < t"
  shows "balance (snd (send_to_tutor e t user_input w)) \<in> {Some (tokens u - 1), Some (tokens u)}"
proof (cases "chat_completions_create e 500 (chat_history (st w) @ [Message User user_input])")
  case (Returned reply)
  from send_success[OF assms this] show ?thesis by simp
next
  case (API_error x)
  then have "api_failed (chat_completions_create e 500 (chat_history (st w) @ [Message User user_input]))"
    by (simp add: api_failed_def)
  from send_failure[OF assms(1) this, of t] show ?thesis by simp
next
  case (Other_error x)
  then have "api_failed (chat_completions_create e 500 (chat_history (st w) @ [Message User user_input]))"
    by (simp add: api_failed_def)
  from send_failure[OF assms(1) this, of t] show ?thesis by simp
qed

subsection \<open>The first entry of the transcript\<close>

lemma initial_tutor_message_nonempty [simp]: "initial_tutor_message subject \<noteq> []"
  by (simp add: initial_tutor_message_def)

lemma headed_same:
  "chat_history (st w') = chat_history (st w) \<Longrightarrow>
   current_study_subject (st w') = current_study_subject (st w) \<Longrightarrow>
   transcript_headed w' = transcript_headed w"
  by (simp add: transcript_headed_def)

lemma headed_frame [simp]:
  "transcript_headed (w\<lparr>shown := xs\<rparr>) = transcript_headed w"
  "transcript_headed (w\<lparr>db := d\<rparr>) = transcript_headed w"
  "transcript_headed (emit x w) = transcript_headed w"
  "transcript_headed (set_page p w) = transcript_headed w"
  "transcript_headed (modify_user f w) = transcript_headed w"
  "transcript_headed (snd (update_user_data e w)) = transcript_headed w"
  "transcript_headed (snd (save_chat_history e w)) = transcript_headed w"
  "transcript_headed (snd (text_to_speech e r w)) = transcript_headed w"
  "transcript_headed (clear_chat w)"
  by (simp_all add: transcript_headed_def small_defs)

lemma chat_frame [simp]:
  "chat_history (st (emit x w)) = chat_history (st w)"
  "chat_history (st (modify_user f w)) = chat_history (st w)"
  "chat_history (st (append_chat m w)) = chat_history (st w) @ [m]"
  by (simp_all add: small_defs)

lemma headed_append:
  "transcript_headed w \<Longrightarrow> chat_history (st w) \<noteq> [] \<Longrightarrow> transcript_headed (append_chat m w)"
  by (auto simp: transcript_headed_def append_chat_def)

lemma headed_revert [simp]:
  "transcript_headed (snd (revert_token_decrement e c n w)) = transcript_headed w"
  by (simp add: revert_token_decrement_def)

lemma headed_send:
  assumes "transcript_headed w" "chat_history (st w) \<noteq> []"
  shows "transcript_headed (snd (send_to_tutor e t user_input w))"
  using assms
  by (simp add: send_to_tutor_def Let_def case_saved split_beta headed_append
      split: api_result.splits)

lemma last_tutor_message_Nil [simp]: "last_tutor_message [] = []"
  by (simp add: last_tutor_message_def)

lemma headed_visual:
  assumes "transcript_headed w"
  shows "transcript_headed (snd (generate_visual_explanation e t w))"
proof (cases "chat_history (st w) = []")
  case True
  then show ?thesis using assms
    by (simp add: generate_visual_explanation_def Let_def)
next
  case False
  then show ?thesis using assms
    by (simp add: generate_visual_explanation_def Let_def case_saved headed_append
        split: api_result.splits)
qed

lemma headed_start_readable:
  assumes "selected \<noteq> select_a_subject"
    "pdf_reader e (syllabus_file_path selected) = Contents pages"
    "open_text e (context_file_path selected) = Contents ctx"
  shows "transcript_headed (snd (start_study_session e selected g w)) \<and>
         chat_history (st (snd (start_study_session e selected g w))) \<noteq> []"
  using start_readable[OF assms, of g w]
  by (auto simp: transcript_headed_def system_prompt_of_def)

lemma headed_start:
  assumes "chat_history (st w) = []"
  shows "transcript_headed (snd (start_study_session e selected g w))"
proof (cases "selected = select_a_subject")
  case True
  then show ?thesis using assms by (simp add: start_study_session_def transcript_headed_def emit_def)
next
  case ns: False
  show ?thesis
  proof (cases "unreadable (pdf_reader e (syllabus_file_path selected)) \<or>
     unreadable (open_text e (context_file_path selected))")
    case True
    from start_unreadable[OF ns True, of g w] assms show ?thesis
      by (simp add: transcript_headed_def)
  next
    case False
    then obtain pages ctx where "pdf_reader e (syllabus_file_path selected) = Contents pages"
      "open_text e (context_file_path selected) = Contents ctx"
      by (auto simp: unreadable_def split: file_read.splits)
    from headed_start_readable[OF ns this] show ?thesis by simp
  qed
qed

lemma headed_change: "transcript_headed (snd (change_study_subject w))"
  by (simp add: change_study_subject_def)

lemma headed_please [simp]: "transcript_headed (snd (please_log_in w)) = transcript_headed w"
  by (simp add: please_log_in_def)

lemma headed_tutor_page:
  assumes "transcript_headed w" "is_send c \<longrightarrow> chat_history (st w) \<noteq> []"
    "is_start c \<longrightarrow> chat_history (st w) = []"
  shows "transcript_headed (snd (tutor_page e c w))"
  using assms
  by (cases c)
     (auto simp: tutor_page_def Let_def headed_send headed_visual headed_start headed_change
        is_send_def is_start_def split: option.splits)

lemma headed_login_page:
  "transcript_headed w \<Longrightarrow> \<not> is_submit_login c \<Longrightarrow> transcript_headed (snd (login_page e c w))"
  by (cases c) (simp_all add: login_page_def is_submit_login_def)

lemma headed_register_page:
  "transcript_headed w \<Longrightarrow> transcript_headed (snd (register_page e c w))"
  by (cases c) (simp_all add: register_page_def Let_def)

lemma headed_profile_page:
  "transcript_headed w \<Longrightarrow> transcript_headed (snd (profile_page e c w))"
  by (cases c) (simp_all add: profile_page_def case_saved)

lemma headed_logout: "transcript_headed (snd (logout w))"
  by (simp add: logout_def transcript_headed_def)

lemma headed_main:
  assumes "transcript_headed w" "\<not> is_submit_login c"
    "is_send c \<longrightarrow> chat_history (st w) \<noteq> []" "is_start c \<longrightarrow> chat_history (st w) = []"
  shows "transcript_headed (snd (main e c w))"
proof -
  have "transcript_headed (snd (render_page e c (w\<lparr>shown := []\<rparr>)))"
    using assms
    by (cases "current_page (st w)")
       (simp_all add: render_page_def headed_tutor_page headed_login_page headed_register_page
          headed_profile_page)
  then show ?thesis using assms(1)
    by (cases c) (simp_all add: main_def Let_def headed_logout)
qed

lemma seeded_headed:
  "transcript_headed (example_app t (Some ''Mathematics'') l seeded)"
  by (auto simp: transcript_headed_def system_prompt_of_def example_app_def seeded_def)

subsection \<open>The context-loaded flag\<close>

lemma lws_same:
  "subject_context_loaded (st w') = subject_context_loaded (st w) \<Longrightarrow>
   current_study_subject (st w') = current_study_subject (st w) \<Longrightarrow>
   loaded_with_subject w' = loaded_with_subject w"
  by (simp add: loaded_with_subject_def)

lemma send_keeps_subject:
  "current_study_subject (st (snd (send_to_tutor e t user_input w))) = current_study_subject (st w) \<and>
   subject_context_loaded (st (snd (send_to_tutor e t user_input w))) = subject_context_loaded (st w)"
  by (simp add: send_to_tutor_def revert_token_decrement_def Let_def case_saved split_beta
      small_defs split: api_result.splits)

lemma visual_keeps_subject:
  "current_study_subject (st (snd (generate_visual_explanation e t w))) = current_study_subject (st w) \<and>
   subject_context_loaded (st (snd (generate_visual_explanation e t w))) = subject_context_loaded (st w)"
  by (simp add: generate_visual_explanation_def revert_token_decrement_def Let_def case_saved
      small_defs split: api_result.splits)

lemma available_nonempty: "selected \<in> set available_study_subjects \<Longrightarrow> selected \<noteq> []"
  by (auto simp: available_study_subjects_def)

lemma lws_start:
  assumes "loaded_with_subject w" "selected \<in> set (select_a_subject # available_study_subjects)"
  shows "loaded_with_subject (snd (start_study_session e selected g w))"
proof (cases "selected = select_a_subject")
  case True
  then show ?thesis using assms by (simp add: start_study_session_def loaded_with_subject_def emit_def)
next
  case False
  then have "selected \<noteq> []" using assms(2) available_nonempty by auto
  then show ?thesis using assms(1) False
    by (simp add: start_study_session_def read_pdf_text_def read_text_file_def Let_def case_saved
        loaded_with_subject_def truthy_def small_defs split: file_read.splits)
qed

lemma lws_frame [simp]:
  "loaded_with_subject (w\<lparr>shown := xs\<rparr>) = loaded_with_subject w"
  "loaded_with_subject (w\<lparr>db := d\<rparr>) = loaded_with_subject w"
  "loaded_with_subject (emit x w) = loaded_with_subject w"
  "loaded_with_subject (set_page p w) = loaded_with_subject w"
  "loaded_with_subject (modify_user f w) = loaded_with_subject w"
  "loaded_with_subject (snd (update_user_data e w)) = loaded_with_subject w"
  "loaded_with_subject (snd (please_log_in w)) = loaded_with_subject w"
  "loaded_with_subject (snd (send_to_tutor e t user_input w)) = loaded_with_subject w"
  "loaded_with_subject (snd (generate_visual_explanation e t w)) = loaded_with_subject w"
  "loaded_with_subject (snd (change_study_subject w))"
  "loaded_with_subject (snd (logout w)) = loaded_with_subject w"
  by (simp_all add: loaded_with_subject_def small_defs please_log_in_def send_keeps_subject
      visual_keeps_subject change_study_subject_def logout_def)

lemma lws_tutor_page:
  "loaded_with_subject w \<Longrightarrow> offered c \<Longrightarrow> loaded_with_subject (snd (tutor_page e c w))"
  by (cases c) (simp_all add: tutor_page_def Let_def offered_def lws_start split: option.splits)

lemma lws_st:
  "subject_context_loaded s = subject_context_loaded (st w) \<Longrightarrow>
   current_study_subject s = current_study_subject (st w) \<Longrightarrow>
   loaded_with_subject (w\<lparr>st := s\<rparr>) = loaded_with_subject w"
  by (simp add: loaded_with_subject_def)

lemma lws_login_page:
  "loaded_with_subject w \<Longrightarrow> loaded_with_subject (snd (login_page e c w))"
  by (cases c) (simp_all add: login_page_def lws_st split: option.splits)

lemma lws_register_page:
  "loaded_with_subject w \<Longrightarrow> loaded_with_subject (snd (register_page e c w))"
  by (cases c) (simp_all add: register_page_def Let_def)

lemma lws_profile_page:
  "loaded_with_subject w \<Longrightarrow> loaded_with_subject (snd (profile_page e c w))"
  by (cases c) (simp_all add: profile_page_def case_saved)

lemma lws_main:
  assumes "loaded_with_subject w" "offered c"
  shows "loaded_with_subject (snd (main e c w))"
proof -
  have 0: "loaded_with_subject (w\<lparr>shown := []\<rparr>)"
    using assms(1) by (simp add: loaded_with_subject_def)
  have "loaded_with_subject (snd (render_page e c (w\<lparr>shown := []\<rparr>)))"
    using 0 assms(2)
    by (cases "current_page (st w)")
       (simp_all add: render_page_def lws_tutor_page lws_login_page lws_register_page
          lws_profile_page)
  then show ?thesis using 0
    by (cases c) (simp_all add: main_def Let_def)
qed

lemma lws_runs:
  "loaded_with_subject w \<Longrightarrow> \<forall>ec\<in>set ecs. offered (snd ec) \<Longrightarrow>
   loaded_with_subject (runs ecs w)"
  by (induction ecs arbitrary: w) (auto simp: lws_main)

section \<open>The claims\<close>


text \<open>
  Claim C4. A send with non-empty input and a balance above 0 whose chat-completion call
  succeeds ends the run with a rerun, lowers the balance by exactly 1, appends exactly the
  user message and then the reply to the transcript, and issues exactly one
  chat-completion call, on the transcript that ends with the user message. With balance 1
  and a transcript of length 2 it ends with balance 0 and a transcript of length 4.
\<close>

theorem send_success_decrements_and_appends:
  assumes "tutor_ready e w" "active w" "user_data (st w) = Some u" "0 < tokens u"
    "user_input \<noteq> []"
    "chat_completions_create e 500 (chat_history (st w) @ [Message User user_input]) = Returned reply"
    "main e (Send_to_Tutor user_input) w = (oc, w')"
  shows "oc = Rerun \<and> balance w' = Some (tokens u - 1) \<and>
         chat_history (st w') = chat_history (st w) @ [Message User user_input, Message Assistant reply] \<and>
         filter is_chat_completion (shown w') = [Chat_completion 500 (chat_history (st w) @ [Message User user_input])] \<and>
         (tokens u = 1 \<and> length (chat_history (st w)) = 2 \<longrightarrow>
            balance w' = Some 0 \<and> length (chat_history (st w')) = 4)"
proof -
  have m: "send_to_tutor e (tokens u) user_input (w\<lparr>shown := []\<rparr>) = (oc, w')"
    using assms main_send by simp
  have "user_data (st (w\<lparr>shown := []\<rparr>)) = Some u"
    "chat_completions_create e 500 (chat_history (st (w\<lparr>shown := []\<rparr>)) @ [Message User user_input]) = Returned reply"
    using assms by simp_all
  from send_success[OF this(1) assms(4) this(2)] m show ?thesis by simp
qed

theorem send_success_decrements_and_appends_witness:
  "tutor_ready (example_env (Contents [''S'']) (Contents ''C'') (Returned ''4''))
     (example_app 1 (Some ''Mathematics'') True seeded) \<and>
   active (example_app 1 (Some ''Mathematics'') True seeded) \<and>
   length (chat_history (st (example_app 1 (Some ''Mathematics'') True seeded))) = 2 \<and>
   balance (example_app 1 (Some ''Mathematics'') True seeded) = Some 1 \<and>
   fst (main (example_env (Contents [''S'']) (Contents ''C'') (Returned ''4''))
          (Send_to_Tutor ''What is 2+2?'') (example_app 1 (Some ''Mathematics'') True seeded)) = Rerun \<and>
   balance (snd (main (example_env (Contents [''S'']) (Contents ''C'') (Returned ''4''))
          (Send_to_Tutor ''What is 2+2?'') (example_app 1 (Some ''Mathematics'') True seeded))) = Some 0 \<and>
   length (chat_history (st (snd (main (example_env (Contents [''S'']) (Contents ''C'') (Returned ''4''))
          (Send_to_Tutor ''What is 2+2?'') (example_app 1 (Some ''Mathematics'') True seeded))))) = 4"
  using send_success_decrements_and_appends [of "example_env (Contents [''S'']) (Contents ''C'') (Returned ''4'')"
      "example_app 1 (Some ''Mathematics'') True seeded" "example_user 1 seeded"
      "''What is 2+2?''" "''4''"
      "fst (main (example_env (Contents [''S'']) (Contents ''C'') (Returned ''4''))
          (Send_to_Tutor ''What is 2+2?'') (example_app 1 (Some ''Mathematics'') True seeded))"
      "snd (main (example_env (Contents [''S'']) (Contents ''C'') (Returned ''4''))
          (Send_to_Tutor ''What is 2+2?'') (example_app 1 (Some ''Mathematics'') True seeded))"]
  by (simp add: tutor_ready_def active_def truthy_def example_app_def example_env_def
      example_user_def seeded_def balance_def)

text \<open>
  Claim C3. When the chat-completion call of a send fails, with an API error or with any
  other exception, the balance after the run is the balance before it, in the session and,
  where the stored balance agreed with the session before, in the store.
\<close>

theorem failed_send_keeps_balance:
  assumes "tutor_ready e w" "active w" "user_input \<noteq> []"
    "api_failed (chat_completions_create e 500 (chat_history (st w) @ [Message User user_input]))"
    "main e (Send_to_Tutor user_input) w = (oc, w')"
  shows "oc = Finished \<and> balance w' = balance w \<and>
         (stored_balance w = balance w \<longrightarrow> stored_balance w' = balance w)"
proof -
  from assms(1) obtain u where u: "user_data (st w) = Some u"
    by (auto simp: tutor_ready_def)
  have m: "send_to_tutor e (tokens u) user_input (w\<lparr>shown := []\<rparr>) = (oc, w')"
    using assms u main_send by simp
  have "user_data (st (w\<lparr>shown := []\<rparr>)) = Some u"
    "api_failed (chat_completions_create e 500 (chat_history (st (w\<lparr>shown := []\<rparr>)) @ [Message User user_input]))"
    using assms u by simp_all
  from send_failure[OF this, of "tokens u"] m u show ?thesis
    by (simp add: balance_def stored_balance_def split: option.splits)
qed

theorem failed_send_keeps_balance_witness:
  "tutor_ready (example_env (Contents [''S'']) (Contents ''C'') (API_error ''timeout''))
     (example_app 5 (Some ''Mathematics'') True seeded) \<and>
   active (example_app 5 (Some ''Mathematics'') True seeded) \<and>
   api_failed (chat_completions_create
      (example_env (Contents [''S'']) (Contents ''C'') (API_error ''timeout'')) 500
      (chat_history (st (example_app 5 (Some ''Mathematics'') True seeded)) @ [Message User ''Hi''])) \<and>
   balance (example_app 5 (Some ''Mathematics'') True seeded) = Some 5 \<and>
   stored_balance (example_app 5 (Some ''Mathematics'') True seeded) = Some 5 \<and>
   fst (main (example_env (Contents [''S'']) (Contents ''C'') (API_error ''timeout''))
          (Send_to_Tutor ''Hi'') (example_app 5 (Some ''Mathematics'') True seeded)) = Finished \<and>
   balance (snd (main (example_env (Contents [''S'']) (Contents ''C'') (API_error ''timeout''))
          (Send_to_Tutor ''Hi'') (example_app 5 (Some ''Mathematics'') True seeded))) = Some 5 \<and>
   stored_balance (snd (main (example_env (Contents [''S'']) (Contents ''C'') (API_error ''timeout''))
          (Send_to_Tutor ''Hi'') (example_app 5 (Some ''Mathematics'') True seeded))) = Some 5"
  using failed_send_keeps_balance [of
      "example_env (Contents [''S'']) (Contents ''C'') (API_error ''timeout'')"
      "example_app 5 (Some ''Mathematics'') True seeded" "''Hi''"
      "fst (main (example_env (Contents [''S'']) (Contents ''C'') (API_error ''timeout''))
          (Send_to_Tutor ''Hi'') (example_app 5 (Some ''Mathematics'') True seeded))"
      "snd (main (example_env (Contents [''S'']) (Contents ''C'') (API_error ''timeout''))
          (Send_to_Tutor ''Hi'') (example_app 5 (Some ''Mathematics'') True seeded))"]
  by (simp add: guard_defs example_defs balance_def stored_balance_def api_failed_def)

text \<open>
  Claim C10. A visual explanation requested with a balance of at least 50 while the
  transcript holds no assistant message: the run deducts 50 and writes the user document
  first, then shows the warning and returns. It issues no chat-completion and no image
  call and refunds nothing: the balance, in the session and in the store, is 50 lower.
\<close>

theorem visual_without_tutor_message_not_refunded:
  assumes "tutor_ready e w" "active w" "user_data (st w) = Some u"
    "username (st w) = Some n" "n \<noteq> []" "50 \<le> tokens u" "\<not> generating_image (st w)"
    "\<forall>m\<in>set (chat_history (st w)). role m \<noteq> Assistant"
    "main e Generate_Visual_Explanation w = (oc, w')"
  shows "oc = Finished \<and> balance w' = Some (tokens u - 50) \<and>
         stored_balance w' = Some (tokens u - 50) \<and>
         shown w' = [Firestore_set n (u\<lparr>tokens := tokens u - 50\<rparr>),
                     St_warning No_recent_tutor_message] \<and>
         chat_history (st w') = chat_history (st w)"
proof -
  have m: "generate_visual_explanation e (tokens u) (w\<lparr>shown := []\<rparr>) = (oc, w')"
    using assms main_visual by simp
  have fb: "firebase_initialized e" using assms(1) by (simp add: tutor_ready_def)
  have "generate_visual_explanation e (tokens u) (w\<lparr>shown := []\<rparr>) =
     (Finished,
      emit (St_warning No_recent_tutor_message)
        (emit (Firestore_set n (u\<lparr>tokens := tokens u - 50\<rparr>))
           (w\<lparr>shown := [], st := (st w)\<lparr>user_data := Some (u\<lparr>tokens := tokens u - 50\<rparr>)\<rparr>,
              db := (db w)(n \<mapsto> u\<lparr>tokens := tokens u - 50\<rparr>)\<rparr>)))"
    using visual_no_tutor_message[of "w\<lparr>shown := []\<rparr>" u n e "tokens u"] assms fb
    by (simp add: no_assistant_last IMAGE_GENERATION_COST_def)
  with m show ?thesis using assms
    by (auto simp: emit_def balance_def stored_balance_def)
qed

theorem visual_without_tutor_message_not_refunded_witness:
  "tutor_ready (example_env (Contents [''S'']) (Contents ''C'') (Returned ''a triangle''))
     (example_app 50 (Some ''Mathematics'') True [Message User ''Hi'']) \<and>
   active (example_app 50 (Some ''Mathematics'') True [Message User ''Hi'']) \<and>
   balance (example_app 50 (Some ''Mathematics'') True [Message User ''Hi'']) = Some 50 \<and>
   fst (main (example_env (Contents [''S'']) (Contents ''C'') (Returned ''a triangle''))
          Generate_Visual_Explanation
          (example_app 50 (Some ''Mathematics'') True [Message User ''Hi''])) = Finished \<and>
   balance (snd (main (example_env (Contents [''S'']) (Contents ''C'') (Returned ''a triangle''))
          Generate_Visual_Explanation
          (example_app 50 (Some ''Mathematics'') True [Message User ''Hi'']))) = Some 0 \<and>
   stored_balance (snd (main (example_env (Contents [''S'']) (Contents ''C'') (Returned ''a triangle''))
          Generate_Visual_Explanation
          (example_app 50 (Some ''Mathematics'') True [Message User ''Hi'']))) = Some 0 \<and>
   shown (snd (main (example_env (Contents [''S'']) (Contents ''C'') (Returned ''a triangle''))
          Generate_Visual_Explanation
          (example_app 50 (Some ''Mathematics'') True [Message User ''Hi'']))) =
     [Firestore_set ''alice'' (example_user 0 [Message User ''Hi'']),
      St_warning No_recent_tutor_message]"
  using visual_without_tutor_message_not_refunded [of
      "example_env (Contents [''S'']) (Contents ''C'') (Returned ''a triangle'')"
      "example_app 50 (Some ''Mathematics'') True [Message User ''Hi'']"
      "example_user 50 [Message User ''Hi'']" "''alice''"
      "fst (main (example_env (Contents [''S'']) (Contents ''C'') (Returned ''a triangle''))
          Generate_Visual_Explanation
          (example_app 50 (Some ''Mathematics'') True [Message User ''Hi'']))"
      "snd (main (example_env (Contents [''S'']) (Contents ''C'') (Returned ''a triangle''))
          Generate_Visual_Explanation
          (example_app 50 (Some ''Mathematics'') True [Message User ''Hi'']))"]
  by (simp add: guard_defs example_defs balance_def)

text \<open>
  Claim C1, amended. When the syllabus or the context file of the selected subject cannot
  be read, the run stops with one error message, the store is unchanged, and the session
  state is unchanged but for the current study subject, which is the selected subject:
  the transcript, the loaded syllabus and context and the context-loaded flag are as
  before. The engine is not Active after the run, in every state in which the
  context-loaded flag is set only together with a study subject; these are the states of
  a new browser session and of every sequence of runs from one, a session start coming
  with an option of the select box.
\<close>

theorem failed_start_sets_only_subject:
  "(tutor_ready e w \<and> \<not> active w \<and> loaded_with_subject w \<and>
    selected \<noteq> select_a_subject \<and>
    (unreadable (pdf_reader e (syllabus_file_path selected)) \<or>
     unreadable (open_text e (context_file_path selected))) \<longrightarrow>
      fst (main e (Start_Study_Session selected grade) w) = Stopped \<and>
      (\<exists>n. shown (snd (main e (Start_Study_Session selected grade) w)) = [St_error n]) \<and>
      st (snd (main e (Start_Study_Session selected grade) w)) =
        (st w)\<lparr>current_study_subject := Some selected\<rparr> \<and>
      db (snd (main e (Start_Study_Session selected grade) w)) = db w \<and>
      \<not> active (snd (main e (Start_Study_Session selected grade) w))) \<and>
   loaded_with_subject \<lparr>st = initial_session, db = d, shown = []\<rparr> \<and>
   (loaded_with_subject v \<and> (\<forall>ec\<in>set ecs. offered (snd ec)) \<longrightarrow>
      loaded_with_subject (runs ecs v))"
proof (intro conjI impI)
  assume a: "tutor_ready e w \<and> \<not> active w \<and> loaded_with_subject w \<and>
    selected \<noteq> select_a_subject \<and>
    (unreadable (pdf_reader e (syllabus_file_path selected)) \<or>
     unreadable (open_text e (context_file_path selected)))"
  then have m: "main e (Start_Study_Session selected grade) w =
      start_study_session e selected grade (w\<lparr>shown := []\<rparr>)"
    by (simp add: main_start)
  from a have r: "selected \<noteq> select_a_subject"
    "unreadable (pdf_reader e (syllabus_file_path selected)) \<or>
     unreadable (open_text e (context_file_path selected))" by simp_all
  note s = start_unreadable[OF r, of grade "w\<lparr>shown := []\<rparr>"]
  show "fst (main e (Start_Study_Session selected grade) w) = Stopped"
    using s m by simp
  show "\<exists>n. shown (snd (main e (Start_Study_Session selected grade) w)) = [St_error n]"
    using s m by simp
  show st': "st (snd (main e (Start_Study_Session selected grade) w)) =
        (st w)\<lparr>current_study_subject := Some selected\<rparr>"
    using s m by simp
  show "db (snd (main e (Start_Study_Session selected grade) w)) = db w"
    using s m by simp
  from a have "\<not> subject_context_loaded (st w)"
    by (auto simp: active_def loaded_with_subject_def)
  then show "\<not> active (snd (main e (Start_Study_Session selected grade) w))"
    by (simp add: active_def st')
next
  show "loaded_with_subject \<lparr>st = initial_session, db = d, shown = []\<rparr>"
    by (simp add: loaded_with_subject_def initial_session_def)
next
  assume "loaded_with_subject v \<and> (\<forall>ec\<in>set ecs. offered (snd ec))"
  then show "loaded_with_subject (runs ecs v)" by (simp add: lws_runs)
qed

theorem failed_start_sets_only_subject_witness:
  "tutor_ready (example_env File_not_found (Contents ''C'') (Returned ''x''))
     (example_app 5 None False []) \<and>
   \<not> active (example_app 5 None False []) \<and>
   loaded_with_subject (example_app 5 None False []) \<and>
   unreadable (pdf_reader (example_env File_not_found (Contents ''C'') (Returned ''x''))
                 (syllabus_file_path ''Mathematics'')) \<and>
   fst (main (example_env File_not_found (Contents ''C'') (Returned ''x''))
          (Start_Study_Session ''Mathematics'' ''High School'') (example_app 5 None False [])) = Stopped \<and>
   st (snd (main (example_env File_not_found (Contents ''C'') (Returned ''x''))
          (Start_Study_Session ''Mathematics'' ''High School'') (example_app 5 None False []))) =
     (st (example_app 5 None False []))\<lparr>current_study_subject := Some ''Mathematics''\<rparr> \<and>
   db (snd (main (example_env File_not_found (Contents ''C'') (Returned ''x''))
          (Start_Study_Session ''Mathematics'' ''High School'') (example_app 5 None False []))) =
     db (example_app 5 None False []) \<and>
   \<not> active (snd (main (example_env File_not_found (Contents ''C'') (Returned ''x''))
          (Start_Study_Session ''Mathematics'' ''High School'') (example_app 5 None False []))) \<and>
   loaded_with_subject fresh_browser \<and>
   offered (Start_Study_Session ''Mathematics'' ''High School'') \<and>
   loaded_with_subject
     (runs [(hello_env, Submit_Login ''alice'' ''pw1''),
            (hello_env, Start_Study_Session ''Mathematics'' ''High School'')] fresh_browser)"
proof -
  have h: "tutor_ready (example_env File_not_found (Contents ''C'') (Returned ''x''))
     (example_app 5 None False [])"
    "\<not> active (example_app 5 None False [])"
    "loaded_with_subject (example_app 5 None False [])"
    "''Mathematics'' \<noteq> select_a_subject"
    "unreadable (pdf_reader (example_env File_not_found (Contents ''C'') (Returned ''x''))
                 (syllabus_file_path ''Mathematics''))"
    by (simp_all add: guard_defs example_app_def example_env_def loaded_with_subject_def
        unreadable_def select_a_subject_def)
  have o: "offered (Submit_Login ''alice'' ''pw1'')"
    "offered (Start_Study_Session ''Mathematics'' ''High School'')"
    by (simp_all add: offered_def available_study_subjects_def)
  from failed_start_sets_only_subject [of
      "example_env File_not_found (Contents ''C'') (Returned ''x'')"
      "example_app 5 None False []" "''Mathematics''" "''High School''" "db fresh_browser"
      fresh_browser
      "[(hello_env, Submit_Login ''alice'' ''pw1''),
        (hello_env, Start_Study_Session ''Mathematics'' ''High School'')]"] h o
  show ?thesis by (simp add: fresh_browser_def)
qed

text \<open>
  The claim as stated fails: with the context file missing, the run stops with the error
  and the current study subject of the session has changed from none to Mathematics.
\<close>

theorem failed_start_changes_session_state:
  "fst (main (example_env (Contents [''S'']) File_not_found (Returned ''x''))
          (Start_Study_Session ''Mathematics'' ''High School'') (example_app 5 None False [])) = Stopped \<and>
   shown (snd (main (example_env (Contents [''S'']) File_not_found (Returned ''x''))
          (Start_Study_Session ''Mathematics'' ''High School'') (example_app 5 None False []))) =
     [St_error (Text_file_not_found ''subject_context/con_Mathematics.txt'')] \<and>
   current_study_subject (st (example_app 5 None False [])) = None \<and>
   current_study_subject (st (snd (main (example_env (Contents [''S'']) File_not_found (Returned ''x''))
          (Start_Study_Session ''Mathematics'' ''High School'') (example_app 5 None False [])))) =
     Some ''Mathematics'' \<and>
   st (snd (main (example_env (Contents [''S'']) File_not_found (Returned ''x''))
          (Start_Study_Session ''Mathematics'' ''High School'') (example_app 5 None False []))) \<noteq>
     st (example_app 5 None False [])"
  by (simp add: run_defs code_defs example_defs guard_defs context_file_path_def
      syllabus_file_path_def subject_file_name_def)



text \<open>
  Claim C8, amended. Changing the study subject in the Active state empties the transcript
  of the session, whatever its length, clears the current study subject and the
  context-loaded flag, and triggers a rerun. It writes nothing to the store: the
  transcript stored in the user document is as before.
\<close>

theorem change_subject_clears_session_transcript:
  assumes "tutor_ready e w" "active w" "main e Change_Study_Subject w = (oc, w')"
  shows "oc = Rerun \<and> chat_history (st w') = [] \<and> current_study_subject (st w') = None \<and>
         \<not> subject_context_loaded (st w') \<and> \<not> active w' \<and>
         db w' = db w \<and> stored_transcript w' = stored_transcript w \<and>
         user_data (st w') = user_data (st w)"
proof -
  have m: "change_study_subject (w\<lparr>shown := []\<rparr>) = (oc, w')"
    using assms main_change by simp
  then show ?thesis
    by (auto simp: change_study_subject_def clear_chat_def active_def stored_transcript_def
        truthy_def split: option.splits)
qed

theorem change_subject_clears_session_transcript_witness:
  "tutor_ready (example_env (Contents [''S'']) (Contents ''C'') (Returned ''x''))
     (example_app 5 (Some ''Mathematics'') True seeded) \<and>
   active (example_app 5 (Some ''Mathematics'') True seeded) \<and>
   fst (main (example_env (Contents [''S'']) (Contents ''C'') (Returned ''x''))
          Change_Study_Subject (example_app 5 (Some ''Mathematics'') True seeded)) = Rerun \<and>
   chat_history (st (snd (main (example_env (Contents [''S'']) (Contents ''C'') (Returned ''x''))
          Change_Study_Subject (example_app 5 (Some ''Mathematics'') True seeded)))) = [] \<and>
   current_study_subject (st (snd (main (example_env (Contents [''S'']) (Contents ''C'') (Returned ''x''))
          Change_Study_Subject (example_app 5 (Some ''Mathematics'') True seeded)))) = None \<and>
   \<not> active (snd (main (example_env (Contents [''S'']) (Contents ''C'') (Returned ''x''))
          Change_Study_Subject (example_app 5 (Some ''Mathematics'') True seeded)))"
  using change_subject_clears_session_transcript [of
      "example_env (Contents [''S'']) (Contents ''C'') (Returned ''x'')"
      "example_app 5 (Some ''Mathematics'') True seeded"
      "fst (main (example_env (Contents [''S'']) (Contents ''C'') (Returned ''x''))
          Change_Study_Subject (example_app 5 (Some ''Mathematics'') True seeded))"
      "snd (main (example_env (Contents [''S'']) (Contents ''C'') (Returned ''x''))
          Change_Study_Subject (example_app 5 (Some ''Mathematics'') True seeded))"]
  by (simp add: guard_defs example_app_def example_env_def)

text \<open>
  The claim as stated fails: after the change of subject the transcript of the session is
  empty, and the stored one still holds the two messages.
\<close>

theorem change_subject_keeps_stored_transcript:
  "length (chat_history (st (example_app 5 (Some ''Mathematics'') True seeded))) = 2 \<and>
   stored_transcript (example_app 5 (Some ''Mathematics'') True seeded) = Some seeded \<and>
   chat_history (st (snd (main (example_env (Contents [''S'']) (Contents ''C'') (Returned ''x''))
          Change_Study_Subject (example_app 5 (Some ''Mathematics'') True seeded)))) = [] \<and>
   stored_transcript (snd (main (example_env (Contents [''S'']) (Contents ''C'') (Returned ''x''))
          Change_Study_Subject (example_app 5 (Some ''Mathematics'') True seeded))) = Some seeded \<and>
   stored_transcript (snd (main (example_env (Contents [''S'']) (Contents ''C'') (Returned ''x''))
          Change_Study_Subject (example_app 5 (Some ''Mathematics'') True seeded))) \<noteq> Some []"
  by (simp add: run_defs code_defs example_defs guard_defs stored_transcript_def)

text \<open>
  Claim C9. Logout clears the login flag, the user name, the user data and the transcript
  and sets the login page; it leaves the current study subject, the loaded syllabus and
  context and the context-loaded flag as they are. A login that follows, of any user,
  finds them unchanged: the engine is Active after it exactly if it was before the
  logout.
\<close>

theorem logout_keeps_subject_context:
  assumes "logged_in (st w)" "main e Nav_Logout w = (oc, w1)"
    "firebase_initialized e'" "db w name = Some doc" "check_password e' password (password_hash doc)"
    "main e' (Submit_Login name password) w1 = (oc', w2)"
  shows "oc = Rerun \<and> \<not> logged_in (st w1) \<and> username (st w1) = None \<and>
         user_data (st w1) = None \<and> chat_history (st w1) = [] \<and>
         current_page (st w1) = LoginPage \<and>
         current_study_subject (st w1) = current_study_subject (st w) \<and>
         subject_context_loaded (st w1) = subject_context_loaded (st w) \<and>
         active_syllabus (st w1) = active_syllabus (st w) \<and>
         active_subject_context (st w1) = active_subject_context (st w) \<and>
         db w1 = db w \<and>
         oc' = Rerun \<and> logged_in (st w2) \<and> username (st w2) = Some name \<and>
         user_data (st w2) = Some doc \<and> chat_history (st w2) = u_chat_history doc \<and>
         current_page (st w2) = TutorPage \<and>
         current_study_subject (st w2) = current_study_subject (st w) \<and>
         subject_context_loaded (st w2) = subject_context_loaded (st w) \<and>
         active_syllabus (st w2) = active_syllabus (st w) \<and>
         active_subject_context (st w2) = active_subject_context (st w) \<and>
         active w2 = active w"
proof -
  have 1: "w1 = w\<lparr>st := (st w)\<lparr>logged_in := False, username := None, user_data := None,
                    chat_history := [], history_aliased := False,
                    current_page := LoginPage\<rparr>, shown := []\<rparr>" and oc: "oc = Rerun"
    using assms(1,2) by (auto simp: main_def logout_def)
  have 2: "main e' (Submit_Login name password) w1 = login_page e' (Submit_Login name password) (w1\<lparr>shown := []\<rparr>)"
    by (simp add: 1 main_def render_page_def)
  have 3: "login_page e' (Submit_Login name password) (w1\<lparr>shown := []\<rparr>) =
      (Rerun, w1\<lparr>st := (st w1)\<lparr>logged_in := True, username := Some name,
                                      user_data := Some doc,
                                      chat_history := u_chat_history doc,
                                      history_aliased := True,
                                      current_page := TutorPage\<rparr>\<rparr>)"
    using assms(3,4,5) by (simp add: login_page_def 1)
  from 2 3 assms(6) have 4: "oc' = Rerun" "w2 = w1\<lparr>st := (st w1)\<lparr>logged_in := True, username := Some name,
                                      user_data := Some doc,
                                      chat_history := u_chat_history doc,
                                      history_aliased := True,
                                      current_page := TutorPage\<rparr>\<rparr>" by simp_all
  show ?thesis unfolding 4 oc by (simp add: 1 active_def)
qed

theorem logout_keeps_subject_context_witness:
  "logged_in (st ((example_app 5 (Some ''Mathematics'') True seeded)\<lparr>db := db fresh_browser\<rparr>)) \<and>
   active ((example_app 5 (Some ''Mathematics'') True seeded)\<lparr>db := db fresh_browser\<rparr>) \<and>
   username (st ((example_app 5 (Some ''Mathematics'') True seeded)\<lparr>db := db fresh_browser\<rparr>)) = Some ''alice'' \<and>
   current_study_subject
     (st (snd (main (example_env (Contents [''S'']) (Contents ''C'') (Returned ''x''))
        Nav_Logout ((example_app 5 (Some ''Mathematics'') True seeded)\<lparr>db := db fresh_browser\<rparr>)))) =
     Some ''Mathematics'' \<and>
   username
     (st (snd (main (example_env (Contents [''S'']) (Contents ''C'') (Returned ''x''))
        (Submit_Login ''bob'' ''pw2'')
        (snd (main (example_env (Contents [''S'']) (Contents ''C'') (Returned ''x''))
           Nav_Logout ((example_app 5 (Some ''Mathematics'') True seeded)\<lparr>db := db fresh_browser\<rparr>)))))) =
     Some ''bob'' \<and>
   current_study_subject
     (st (snd (main (example_env (Contents [''S'']) (Contents ''C'') (Returned ''x''))
        (Submit_Login ''bob'' ''pw2'')
        (snd (main (example_env (Contents [''S'']) (Contents ''C'') (Returned ''x''))
           Nav_Logout ((example_app 5 (Some ''Mathematics'') True seeded)\<lparr>db := db fresh_browser\<rparr>)))))) =
     Some ''Mathematics'' \<and>
   active
     (snd (main (example_env (Contents [''S'']) (Contents ''C'') (Returned ''x''))
        (Submit_Login ''bob'' ''pw2'')
        (snd (main (example_env (Contents [''S'']) (Contents ''C'') (Returned ''x''))
           Nav_Logout ((example_app 5 (Some ''Mathematics'') True seeded)\<lparr>db := db fresh_browser\<rparr>)))))"
  using logout_keeps_subject_context [of
      "(example_app 5 (Some ''Mathematics'') True seeded)\<lparr>db := db fresh_browser\<rparr>"
      "example_env (Contents [''S'']) (Contents ''C'') (Returned ''x'')"
      "fst (main (example_env (Contents [''S'']) (Contents ''C'') (Returned ''x''))
           Nav_Logout ((example_app 5 (Some ''Mathematics'') True seeded)\<lparr>db := db fresh_browser\<rparr>))"
      "snd (main (example_env (Contents [''S'']) (Contents ''C'') (Returned ''x''))
           Nav_Logout ((example_app 5 (Some ''Mathematics'') True seeded)\<lparr>db := db fresh_browser\<rparr>))"
      "example_env (Contents [''S'']) (Contents ''C'') (Returned ''x'')"
      "''bob''" example_bob "''pw2''"
      "fst (main (example_env (Contents [''S'']) (Contents ''C'') (Returned ''x''))
        (Submit_Login ''bob'' ''pw2'')
        (snd (main (example_env (Contents [''S'']) (Contents ''C'') (Returned ''x''))
           Nav_Logout ((example_app 5 (Some ''Mathematics'') True seeded)\<lparr>db := db fresh_browser\<rparr>))))"
      "snd (main (example_env (Contents [''S'']) (Contents ''C'') (Returned ''x''))
        (Submit_Login ''bob'' ''pw2'')
        (snd (main (example_env (Contents [''S'']) (Contents ''C'') (Returned ''x''))
           Nav_Logout ((example_app 5 (Some ''Mathematics'') True seeded)\<lparr>db := db fresh_browser\<rparr>))))"]
  by (simp add: guard_defs example_app_def example_env_def fresh_browser_def example_bob_def example_user_def)

text \<open>
  Claim C2 fails on the code. alice has 50 tokens and the transcript of a Mathematics
  session; she requests a visual explanation, the prompt-condensation call returns a prompt
  and the image endpoint would answer with an API error. The run deducts 50, appends the
  "Generating a visual" message and ends in the rerun: no image call is issued, no image
  is in the transcript, and the balance is 0, in the session and in the store. The
  statements after the rerun, had they run, would report the failure of the image call and
  leave the balance at 0 as well: their failure branch has no refund.
\<close>

theorem illustration_without_image_not_refunded:
  "balance (example_app 50 (Some ''Mathematics'') True seeded) = Some 50 \<and>
   fst (main (example_env (Contents [''S'']) (Contents ''C'') (Returned ''a right triangle''))
          Generate_Visual_Explanation (example_app 50 (Some ''Mathematics'') True seeded)) = Rerun \<and>
   balance (snd (main (example_env (Contents [''S'']) (Contents ''C'') (Returned ''a right triangle''))
          Generate_Visual_Explanation (example_app 50 (Some ''Mathematics'') True seeded))) = Some 0 \<and>
   stored_balance (snd (main (example_env (Contents [''S'']) (Contents ''C'') (Returned ''a right triangle''))
          Generate_Visual_Explanation (example_app 50 (Some ''Mathematics'') True seeded))) = Some 0 \<and>
   filter is_image_generation
     (shown (snd (main (example_env (Contents [''S'']) (Contents ''C'') (Returned ''a right triangle''))
          Generate_Visual_Explanation (example_app 50 (Some ''Mathematics'') True seeded)))) = [] \<and>
   filter (\<lambda>m. role m = Image)
     (chat_history (st (snd (main (example_env (Contents [''S'']) (Contents ''C'') (Returned ''a right triangle''))
          Generate_Visual_Explanation (example_app 50 (Some ''Mathematics'') True seeded))))) = [] \<and>
   images_generate (example_env (Contents [''S'']) (Contents ''C'') (Returned ''a right triangle''))
     ''a right triangle'' = API_error ''quota'' \<and>
   fst (after_generating_message
          (example_env (Contents [''S'']) (Contents ''C'') (Returned ''a right triangle''))
          ''a right triangle''
          (snd (main (example_env (Contents [''S'']) (Contents ''C'') (Returned ''a right triangle''))
             Generate_Visual_Explanation (example_app 50 (Some ''Mathematics'') True seeded)))) = Finished \<and>
   balance (snd (after_generating_message
          (example_env (Contents [''S'']) (Contents ''C'') (Returned ''a right triangle''))
          ''a right triangle''
          (snd (main (example_env (Contents [''S'']) (Contents ''C'') (Returned ''a right triangle''))
             Generate_Visual_Explanation (example_app 50 (Some ''Mathematics'') True seeded))))) = Some 0"
  by (simp add: run_defs code_defs example_defs guard_defs balance_def stored_balance_def
      is_image_generation_def Let_def)

text \<open>
  Claim C6. No balance is negative after any sequence of runs that starts in a state where
  none is, in the session or in the store. A send with a balance above 0 leaves the balance
  or lowers it by exactly 1, and with no tokens left it only shows the error; a visual
  explanation with a balance of at least 50 leaves the balance or lowers it by exactly 50,
  and with less it only shows the error.
\<close>

theorem balance_never_negative:
  "(tokens_nonneg w \<longrightarrow> tokens_nonneg (runs ecs w)) \<and>
   (tutor_ready e v \<and> active v \<and> user_data (st v) = Some u \<and> user_input \<noteq> [] \<longrightarrow>
      (if 0 < tokens u
       then balance (snd (main e (Send_to_Tutor user_input) v)) \<in>
              {Some (tokens u - 1), Some (tokens u)}
       else snd (main e (Send_to_Tutor user_input) v) = v\<lparr>shown := [St_error No_tokens_left]\<rparr>)) \<and>
   (tutor_ready e v \<and> active v \<and> user_data (st v) = Some u \<and> \<not> generating_image (st v) \<longrightarrow>
      (if 50 \<le> tokens u
       then balance (snd (main e Generate_Visual_Explanation v)) \<in>
              {Some (tokens u - 50), Some (tokens u)}
       else snd (main e Generate_Visual_Explanation v) =
              v\<lparr>shown := [St_error (Need_tokens_for_visual 50 (tokens u))]\<rparr>))"
proof (intro conjI impI)
  assume "tokens_nonneg w"
  then show "tokens_nonneg (runs ecs w)" by (rule nonneg_runs)
next
  assume a: "tutor_ready e v \<and> active v \<and> user_data (st v) = Some u \<and> user_input \<noteq> []"
  then have m: "main e (Send_to_Tutor user_input) v =
      send_to_tutor e (tokens u) user_input (v\<lparr>shown := []\<rparr>)"
    by (simp add: main_send)
  show "if 0 < tokens u
       then balance (snd (main e (Send_to_Tutor user_input) v)) \<in>
              {Some (tokens u - 1), Some (tokens u)}
       else snd (main e (Send_to_Tutor user_input) v) = v\<lparr>shown := [St_error No_tokens_left]\<rparr>"
  proof (cases "0 < tokens u")
    case True
    have "user_data (st (v\<lparr>shown := []\<rparr>)) = Some u" using a by simp
    from send_balance[OF this True] m True show ?thesis by simp
  next
    case False
    then show ?thesis using m by (simp add: send_to_tutor_def emit_def)
  qed
next
  assume a: "tutor_ready e v \<and> active v \<and> user_data (st v) = Some u \<and> \<not> generating_image (st v)"
  then have m: "main e Generate_Visual_Explanation v =
      generate_visual_explanation e (tokens u) (v\<lparr>shown := []\<rparr>)"
    by (simp add: main_visual)
  show "if 50 \<le> tokens u
       then balance (snd (main e Generate_Visual_Explanation v)) \<in>
              {Some (tokens u - 50), Some (tokens u)}
       else snd (main e Generate_Visual_Explanation v) =
              v\<lparr>shown := [St_error (Need_tokens_for_visual 50 (tokens u))]\<rparr>"
  proof (cases "50 \<le> tokens u")
    case True
    have "user_data (st (v\<lparr>shown := []\<rparr>)) = Some u" using a by simp
    from visual_balance[OF this, of "tokens u" e] m True show ?thesis
      by (simp add: IMAGE_GENERATION_COST_def)
  next
    case False
    then show ?thesis using m
      by (simp add: generate_visual_explanation_def emit_def IMAGE_GENERATION_COST_def)
  qed
qed

theorem balance_never_negative_witness:
  "tokens_nonneg (example_app 1 (Some ''Mathematics'') True seeded) \<and>
   tokens_nonneg (runs [(hello_env, Send_to_Tutor ''Hi''), (hello_env, Send_to_Tutor ''Again'')]
                    (example_app 1 (Some ''Mathematics'') True seeded)) \<and>
   tutor_ready hello_env (example_app 1 (Some ''Mathematics'') True seeded) \<and>
   active (example_app 1 (Some ''Mathematics'') True seeded) \<and>
   balance (snd (main hello_env (Send_to_Tutor ''Hi'')
                   (example_app 1 (Some ''Mathematics'') True seeded))) \<in> {Some 0, Some 1} \<and>
   snd (main hello_env Generate_Visual_Explanation
          (example_app 1 (Some ''Mathematics'') True seeded)) =
     (example_app 1 (Some ''Mathematics'') True seeded)
       \<lparr>shown := [St_error (Need_tokens_for_visual 50 1)]\<rparr>"
proof -
  have h1: "tokens_nonneg (example_app 1 (Some ''Mathematics'') True seeded)"
    by (simp add: tokens_nonneg_def example_app_def example_user_def)
  have h2: "tutor_ready hello_env (example_app 1 (Some ''Mathematics'') True seeded)"
    "active (example_app 1 (Some ''Mathematics'') True seeded)"
    "user_data (st (example_app 1 (Some ''Mathematics'') True seeded)) = Some (example_user 1 seeded)"
    "\<not> generating_image (st (example_app 1 (Some ''Mathematics'') True seeded))"
    by (simp_all add: guard_defs hello_env_def example_app_def example_env_def)
  have h3: "tokens (example_user 1 seeded) = 1"
    by (simp add: example_user_def)
  from balance_never_negative [of "example_app 1 (Some ''Mathematics'') True seeded"
      "[(hello_env, Send_to_Tutor ''Hi''), (hello_env, Send_to_Tutor ''Again'')]"
      hello_env "example_app 1 (Some ''Mathematics'') True seeded" "example_user 1 seeded" "''Hi''"]
    h1 h2 h3
  show ?thesis by simp
qed

text \<open>
  The runs that keep the first entry of the transcript. A successful session start makes
  it the system prompt of the started subject, which is then the current study subject.
  Every run other than a login keeps the property that the transcript is empty or starts
  with the system prompt of the current study subject, provided that a send starts from a
  transcript that is not empty and a session start from an empty one.
\<close>

theorem transcript_head_established_and_kept:
  "(tutor_ready e w \<and> \<not> active w \<and> selected \<noteq> select_a_subject \<and>
    pdf_reader e (syllabus_file_path selected) = Contents pages \<and>
    open_text e (context_file_path selected) = Contents context \<longrightarrow>
      chat_history (st (snd (main e (Start_Study_Session selected grade) w))) \<noteq> [] \<and>
      current_study_subject (st (snd (main e (Start_Study_Session selected grade) w))) =
        Some selected \<and>
      system_prompt_of selected
        (hd (chat_history (st (snd (main e (Start_Study_Session selected grade) w))))) \<and>
      transcript_headed (snd (main e (Start_Study_Session selected grade) w))) \<and>
   (transcript_headed v \<and> \<not> is_submit_login c \<and>
    (is_send c \<longrightarrow> chat_history (st v) \<noteq> []) \<and>
    (is_start c \<longrightarrow> chat_history (st v) = []) \<longrightarrow>
      transcript_headed (snd (main e' c v)))"
proof (intro conjI impI)
  assume a: "tutor_ready e w \<and> \<not> active w \<and> selected \<noteq> select_a_subject \<and>
    pdf_reader e (syllabus_file_path selected) = Contents pages \<and>
    open_text e (context_file_path selected) = Contents context"
  then have m: "main e (Start_Study_Session selected grade) w =
      start_study_session e selected grade (w\<lparr>shown := []\<rparr>)"
    by (simp add: main_start)
  from a have r: "selected \<noteq> select_a_subject"
    "pdf_reader e (syllabus_file_path selected) = Contents pages"
    "open_text e (context_file_path selected) = Contents context" by simp_all
  from start_readable[OF r, of grade "w\<lparr>shown := []\<rparr>"] m
  have s: "st (snd (main e (Start_Study_Session selected grade) w)) =
      (st w)\<lparr>current_study_subject := Some selected,
         active_syllabus := concat (map (\<lambda>p. p @ ''\<newline>'') pages),
         active_subject_context := context, subject_context_loaded := True,
         chat_history := [Message System (initial_system_prompt selected grade (concat (map (\<lambda>p. p @ ''\<newline>'') pages)) context),
                          Message Assistant (initial_tutor_message selected)],
         history_aliased := False\<rparr>" by simp
  show "chat_history (st (snd (main e (Start_Study_Session selected grade) w))) \<noteq> []"
    by (simp add: s)
  show "current_study_subject (st (snd (main e (Start_Study_Session selected grade) w))) = Some selected"
    by (simp add: s)
  show "system_prompt_of selected
        (hd (chat_history (st (snd (main e (Start_Study_Session selected grade) w)))))"
    by (auto simp: s system_prompt_of_def)
  then show "transcript_headed (snd (main e (Start_Study_Session selected grade) w))"
    by (simp add: transcript_headed_def s)
next
  assume "transcript_headed v \<and> \<not> is_submit_login c \<and>
    (is_send c \<longrightarrow> chat_history (st v) \<noteq> []) \<and>
    (is_start c \<longrightarrow> chat_history (st v) = [])"
  then show "transcript_headed (snd (main e' c v))"
    by (intro headed_main) simp_all
qed

theorem transcript_head_established_and_kept_witness:
  "tutor_ready hello_env (example_app 5 None False [Message User ''old'']) \<and>
   \<not> active (example_app 5 None False [Message User ''old'']) \<and>
   transcript_headed (snd (main hello_env (Start_Study_Session ''Mathematics'' ''High School'')
       (example_app 5 None False [Message User ''old'']))) \<and>
   transcript_headed (example_app 5 (Some ''Mathematics'') True seeded) \<and>
   chat_history (st (example_app 5 (Some ''Mathematics'') True seeded)) \<noteq> [] \<and>
   transcript_headed (snd (main hello_env (Send_to_Tutor ''Hi'')
       (example_app 5 (Some ''Mathematics'') True seeded)))"
  using transcript_head_established_and_kept [of hello_env
      "example_app 5 None False [Message User ''old'']" "''Mathematics''" "[''S'']" "''C''"
      "''High School''" "example_app 5 (Some ''Mathematics'') True seeded"
      "Send_to_Tutor ''Hi''" hello_env]
    seeded_headed [of 5 True]
  by (simp add: guard_defs hello_env_def example_app_def example_env_def select_a_subject_def
      is_submit_login_def is_send_def is_start_def seeded_def)

text \<open>
  Claim C7 fails on the code. The claim: in every reachable state a transcript that is not
  empty starts with the system prompt of the current study subject. alice logs in and
  starts a Mathematics session, then logs out: the logout empties the transcript and
  leaves the study subject and its context-loaded flag set, where the change of subject
  resets them. bob logs in: his stored transcript is empty and the engine is Active. His
  send appends to the empty transcript, so that its first entry is his user message and
  the chat-completion call goes out without a system message.
\<close>

theorem first_entry_of_transcript_not_system:
  "username (st (runs (take 4 bob_after_alice) fresh_browser)) = Some ''bob'' \<and>
   chat_history (st (runs (take 4 bob_after_alice) fresh_browser)) = [] \<and>
   active (runs (take 4 bob_after_alice) fresh_browser) \<and>
   chat_history (st (runs bob_after_alice fresh_browser)) =
     [Message User ''Hi'', Message Assistant ''Hello''] \<and>
   current_study_subject (st (runs bob_after_alice fresh_browser)) = Some ''Mathematics'' \<and>
   subject_context_loaded (st (runs bob_after_alice fresh_browser)) \<and>
   \<not> transcript_headed (runs bob_after_alice fresh_browser)"
proof -
  have s4: "st (runs (take 4 bob_after_alice) fresh_browser) =
     \<lparr>logged_in = True, current_page = TutorPage, username = Some ''bob'',
      user_data = Some example_bob, chat_history = [],
      current_study_subject = Some ''Mathematics'', subject_context_loaded = True,
      active_syllabus = ''S\<newline>'', active_subject_context = ''C'',
      generating_image = False, history_aliased = True\<rparr>"
    by (simp add: bob_after_alice_def hello_env_def run_defs code_defs example_defs guard_defs
        Let_def)
  have s: "st (runs bob_after_alice fresh_browser) =
     \<lparr>logged_in = True, current_page = TutorPage, username = Some ''bob'',
      user_data = Some (example_bob\<lparr>tokens := 999,
         u_chat_history := [Message User ''Hi'', Message Assistant ''Hello'']\<rparr>),
      chat_history = [Message User ''Hi'', Message Assistant ''Hello''],
      current_study_subject = Some ''Mathematics'', subject_context_loaded = True,
      active_syllabus = ''S\<newline>'', active_subject_context = ''C'',
      generating_image = False, history_aliased = True\<rparr>"
    by (simp add: bob_after_alice_def hello_env_def run_defs code_defs example_defs guard_defs
        Let_def)
  show ?thesis
    by (simp add: s s4 transcript_headed_def system_prompt_of_def active_def truthy_def)
qed

end
